theory Spec2Isabelle
  imports Main "HOL-Library.AList"
begin

section \<open>Python values, fields and errors\<close>

text \<open>
  The values that flow through \<^verbatim>\<open>schema.py\<close>. Only what the schema code itself
  inspects is kept: truthiness, the first item of a collection, mapping versus attribute
  access, and the exact type of a value (the key of \<^verbatim>\<open>TYPE_MAPPING\<close>).
  \<open>PObj\<close> is an instance of a user class with the given attributes, \<open>PCursor\<close> an
  iterable without \<^verbatim>\<open>__len__\<close> and \<^verbatim>\<open>__getitem__\<close> (a database cursor),
  \<open>PScalar\<close> a non-zero value of one of the remaining scalar types.
\<close>

datatype scalar = Datetime | Float | Uuid | Time | Date | Timedelta | Decimal

datatype pyval =
    PNone
  | PBool bool
  | PInt int
  | PText string
  | PBytes string
  | PList "pyval list"
  | PTuple "pyval list"
  | PSet "pyval list"
  | PDict "(string \<times> pyval) list"
  | PObj "(string \<times> pyval) list"
  | PCursor "pyval list"
  | PScalar scalar

text \<open>\<^verbatim>\<open>bool(obj)\<close>, as used by \<^verbatim>\<open>if obj:\<close>.\<close>

fun truthy :: "pyval \<Rightarrow> bool" where
  "truthy PNone = False"
| "truthy (PBool b) = b"
| "truthy (PInt i) = (i \<noteq> 0)"
| "truthy (PText s) = (s \<noteq> [])"
| "truthy (PBytes s) = (s \<noteq> [])"
| "truthy (PList xs) = (xs \<noteq> [])"
| "truthy (PTuple xs) = (xs \<noteq> [])"
| "truthy (PSet xs) = (xs \<noteq> [])"
| "truthy (PDict kvs) = (kvs \<noteq> [])"
| "truthy (PObj attrs) = True"
| "truthy (PCursor xs) = True"
| "truthy (PScalar s) = True"

text \<open>
  The exact type of a value, \<^verbatim>\<open>type(v)\<close>; \<open>other_type\<close> is any type that
  \<^verbatim>\<open>TYPE_MAPPING\<close> does not name.
\<close>

datatype pytype =
    text_type | binary_type | dt_datetime | float_type | bool_type | tuple_type
  | list_type | set_type | int_type | uuid_UUID | dt_time | dt_date | dt_timedelta
  | decimal_Decimal | NoneType | dict_type | other_type

fun scalar_type :: "scalar \<Rightarrow> pytype" where
  "scalar_type Datetime = dt_datetime"
| "scalar_type Float = float_type"
| "scalar_type Uuid = uuid_UUID"
| "scalar_type Time = dt_time"
| "scalar_type Date = dt_date"
| "scalar_type Timedelta = dt_timedelta"
| "scalar_type Decimal = decimal_Decimal"

fun type_of :: "pyval \<Rightarrow> pytype" where
  "type_of PNone = NoneType"
| "type_of (PBool b) = bool_type"
| "type_of (PInt i) = int_type"
| "type_of (PText s) = text_type"
| "type_of (PBytes s) = binary_type"
| "type_of (PList xs) = list_type"
| "type_of (PTuple xs) = tuple_type"
| "type_of (PSet xs) = set_type"
| "type_of (PDict kvs) = dict_type"
| "type_of (PObj attrs) = other_type"
| "type_of (PCursor xs) = other_type"
| "type_of (PScalar s) = scalar_type s"

text \<open>
  What a call takes from the Python runtime. \<open>rt_getattr v key\<close> is the type of
  \<^verbatim>\<open>getattr(v, key)\<close> for an attribute that the class of \<open>v\<close> provides (\<^verbatim>\<open>upper\<close> of
  a string, \<^verbatim>\<open>year\<close> of a date, \<^verbatim>\<open>__class__\<close> of anything), \<open>None\<close> if it provides
  none; \<open>rt_str v\<close> is the text that \<^verbatim>\<open>format\<close> renders for \<open>v\<close>;
  \<open>rt_creation_index\<close> is the value of the running counter \<^verbatim>\<open>Field._creation_index\<close>
  when the call starts: every field instance made so far has a smaller index, a field class
  shows the counter itself, and the next instance made takes it.
\<close>

record runtime =
  rt_getattr :: "pyval \<Rightarrow> string \<Rightarrow> pytype option"
  rt_str :: "pyval \<Rightarrow> string"
  rt_creation_index :: nat

text \<open>The field classes named by \<^verbatim>\<open>TYPE_MAPPING\<close>; \<open>fields_Field\<close> is the base class.\<close>

datatype field_kind =
    fields_Field | fields_Raw | fields_String | fields_DateTime | fields_Float
  | fields_Boolean | fields_Integer | fields_UUID | fields_Time | fields_Date
  | fields_TimeDelta | fields_Decimal

record field =
  f_kind :: field_kind
  f_creation_index :: nat
  f_required :: bool
  f_load_only :: bool
  f_dump_only :: bool
  f_name :: "string option"
  f_parent :: bool

text \<open>
  A class attribute that passes \<^verbatim>\<open>is_instance_or_subclass(value, FieldABC)\<close> is a field
  instance or, by mistake of the schema author, a field class.
\<close>

datatype fieldval = Inst field | Cls field_kind

text \<open>
  A fresh instance \<^verbatim>\<open>K()\<close> of a field class, not yet bound to a schema; it takes the
  running creation index \<open>idx\<close>.
\<close>

definition new_field :: "field_kind \<Rightarrow> nat \<Rightarrow> field" where
  "new_field k idx = \<lparr>f_kind = k, f_creation_index = idx, f_required = False,
     f_load_only = False, f_dump_only = False, f_name = None, f_parent = False\<rparr>"

text \<open>
  An error dictionary maps a field name (or the index of an item of a batch) to a list of
  messages or to a nested dictionary.
\<close>

datatype ekey = KName string | KIndex nat

datatype emsgs = Msgs "string list" | Nested "(ekey \<times> emsgs) list"

type_synonym errors = "(ekey \<times> emsgs) list"

record verror =
  e_messages :: errors
  e_field_names :: "string list"
  e_fields :: "fieldval list"
  e_data :: pyval

datatype exn =
    ValueError string
  | TypeError string
  | KeyError string
  | AttributeError string
  | ValidationError verror

text \<open>
  \<^verbatim>\<open>dict(pairs)\<close> and \<^verbatim>\<open>d.update(pairs)\<close>: a key that is present keeps its place and
  takes the new value, a new key is appended.
\<close>

definition dict_update :: "('k \<times> 'v) list \<Rightarrow> ('k \<times> 'v) list \<Rightarrow> ('k \<times> 'v) list" where
  "dict_update d ps = fold (\<lambda>(k, v). AList.update k v) ps d"

definition dict_of :: "('k \<times> 'v) list \<Rightarrow> ('k \<times> 'v) list" where
  "dict_of ps = dict_update [] ps"

section \<open>class Meta options: \<^verbatim>\<open>SchemaOpts\<close>\<close>

text \<open>
  The value of a \<^verbatim>\<open>class Meta\<close> option that must be a list or a tuple. \<open>OOther b\<close> is
  any other value (a string, a set), \<open>b\<close> its truth value.
\<close>

datatype optval = OList "string list" | OTuple "string list" | OOther bool

fun is_list_or_tuple :: "optval \<Rightarrow> bool" where
  "is_list_or_tuple (OList xs) = True"
| "is_list_or_tuple (OTuple xs) = True"
| "is_list_or_tuple (OOther b) = False"

fun opt_truthy :: "optval \<Rightarrow> bool" where
  "opt_truthy (OList xs) = (xs \<noteq> [])"
| "opt_truthy (OTuple xs) = (xs \<noteq> [])"
| "opt_truthy (OOther b) = b"

fun opt_items :: "optval \<Rightarrow> string list" where
  "opt_items (OList xs) = xs"
| "opt_items (OTuple xs) = xs"
| "opt_items (OOther b) = []"

text \<open>
  A \<^verbatim>\<open>class Meta\<close>: each option is present or not (\<^verbatim>\<open>getattr(meta, name, default)\<close>).
  \<^verbatim>\<open>json_module\<close> and the warning for \<^verbatim>\<open>skip_missing\<close> play no part in field
  resolution or in the pipelines and are left out.
\<close>

record meta =
  m_fields :: "optval option"
  m_additional :: "optval option"
  m_exclude :: "optval option"
  m_strict :: "bool option"
  m_dateformat :: "string option"
  m_ordered :: "bool option"
  m_index_errors :: "bool option"
  m_include :: "(string \<times> fieldval) list option"
  m_load_only :: "string list option"
  m_dump_only :: "string list option"

record opts =
  o_fields :: "string list"
  o_additional :: "string list"
  o_exclude :: "string list"
  o_strict :: bool
  o_dateformat :: "string option"
  o_ordered :: bool
  o_index_errors :: bool
  o_include :: "(string \<times> fieldval) list"
  o_load_only :: "string list"
  o_dump_only :: "string list"

definition getattr_default :: "'a option \<Rightarrow> 'a \<Rightarrow> 'a" where
  "getattr_default a d = (case a of None \<Rightarrow> d | Some v \<Rightarrow> v)"

definition SchemaOpts_init :: "meta \<Rightarrow> exn + opts" where
  "SchemaOpts_init m =
    (let fields = getattr_default (m_fields m) (OTuple []) in
     if \<not> is_list_or_tuple fields
     then Inl (ValueError ''`fields` option must be a list or tuple.'')
     else
     let additional = getattr_default (m_additional m) (OTuple []) in
     if \<not> is_list_or_tuple additional
     then Inl (ValueError ''`additional` option must be a list or tuple.'')
     else if opt_truthy fields \<and> opt_truthy additional
     then Inl (ValueError
       ''Cannot set both `fields` and `additional` options for the same Schema.'')
     else
     let exclude = getattr_default (m_exclude m) (OTuple []) in
     if \<not> is_list_or_tuple exclude
     then Inl (ValueError ''`exclude` must be a list or tuple.'')
     else Inr \<lparr>
       o_fields = opt_items fields,
       o_additional = opt_items additional,
       o_exclude = opt_items exclude,
       o_strict = getattr_default (m_strict m) False,
       o_dateformat = m_dateformat m,
       o_ordered = getattr_default (m_ordered m) False,
       o_index_errors = getattr_default (m_index_errors m) True,
       o_include = getattr_default (m_include m) [],
       o_load_only = getattr_default (m_load_only m) [],
       o_dump_only = getattr_default (m_dump_only m) []\<rparr>)"

section \<open>Class creation: \<^verbatim>\<open>SchemaMeta\<close>\<close>

text \<open>
  An entry of a class body or of a class \<^verbatim>\<open>__dict__\<close>: a field, the \<^verbatim>\<open>Meta\<close> class, or
  anything else (methods, constants).
\<close>

datatype attr = AField fieldval | AMeta meta | AOther

text \<open>
  A class of the method resolution order: its \<^verbatim>\<open>__dict__\<close>, the value of
  \<^verbatim>\<open>getattr(cls, 'Meta')\<close> if there is one, and \<^verbatim>\<open>_declared_fields\<close> if the class was
  made by \<^verbatim>\<open>SchemaMeta\<close>.
\<close>

record pyclass =
  b_dict :: "(string \<times> attr) list"
  b_Meta :: "meta option"
  b_declared_fields :: "(string \<times> fieldval) list option"

text \<open>
  \<^verbatim>\<open>pair[1]._creation_index\<close>: the index an instance took when it was made; for a field
  class, the class attribute, which is the running counter.
\<close>

fun creation_index :: "runtime \<Rightarrow> fieldval \<Rightarrow> nat" where
  "creation_index rt (Inst f) = f_creation_index f"
| "creation_index rt (Cls k) = rt_creation_index rt"

text \<open>
  \<^verbatim>\<open>_get_fields(attrs, field_class, pop, ordered)\<close>: the pairs of \<open>attrs\<close> whose value
  is a field, sorted by creation index (Python's sort is stable, as \<open>sort_key\<close> is) when
  \<open>ordered\<close>. With \<^verbatim>\<open>pop=True\<close> the fields leave \<open>attrs\<close>: \<open>pop_fields\<close> is what
  remains.
\<close>

definition get_fields ::
  "runtime \<Rightarrow> (string \<times> attr) list \<Rightarrow> bool \<Rightarrow> (string \<times> fieldval) list" where
  "get_fields rt attrs ordered =
    (let fields = [(field_name, f). (field_name, AField f) \<leftarrow> attrs] in
     if ordered then sort_key (\<lambda>pair. creation_index rt (snd pair)) fields else fields)"

definition pop_fields :: "(string \<times> attr) list \<Rightarrow> (string \<times> attr) list" where
  "pop_fields attrs =
     filter (\<lambda>(field_name, a). case a of AField f \<Rightarrow> False | _ \<Rightarrow> True) attrs"

text \<open>\<^verbatim>\<open>getattr(base, '_declared_fields', base.__dict__)\<close>.\<close>

definition fields_source :: "pyclass \<Rightarrow> (string \<times> attr) list" where
  "fields_source base =
    (case b_declared_fields base of
       Some d \<Rightarrow> map (\<lambda>(field_name, f). (field_name, AField f)) d
     | None \<Rightarrow> b_dict base)"

text \<open>
  \<^verbatim>\<open>_get_fields_by_mro(klass, field_class)\<close>. The argument is
  \<^verbatim>\<open>inspect.getmro(klass)\<close>, the class itself first; \<^verbatim>\<open>mro[:0:-1]\<close> drops the class
  and runs from the most basic ancestor to the nearest.
\<close>

definition get_fields_by_mro ::
  "runtime \<Rightarrow> pyclass list \<Rightarrow> bool \<Rightarrow> (string \<times> fieldval) list" where
  "get_fields_by_mro rt mro ordered =
     concat (map (\<lambda>base. get_fields rt (fields_source base) ordered) (rev (tl mro)))"

text \<open>A \<^verbatim>\<open>class Meta: pass\<close>.\<close>

definition empty_Meta :: meta where
  "empty_Meta = \<lparr>m_fields = None, m_additional = None, m_exclude = None, m_strict = None,
     m_dateformat = None, m_ordered = None, m_index_errors = None, m_include = None,
     m_load_only = None, m_dump_only = None\<rparr>"

text \<open>
  \<^verbatim>\<open>attrs.get('Meta')\<close> and the \<^verbatim>\<open>Meta\<close> found in one \<^verbatim>\<open>__dict__\<close>. An object under
  that name that is not an options class counts as one without options.
\<close>

definition own_Meta :: "(string \<times> attr) list \<Rightarrow> meta option" where
  "own_Meta attrs =
    (case map_of attrs ''Meta'' of
       None \<Rightarrow> None
     | Some (AMeta m) \<Rightarrow> Some m
     | Some a \<Rightarrow> Some empty_Meta)"

text \<open>
  The loop over \<open>bases\<close> that inherits the \<^verbatim>\<open>ordered\<close> option: the first base with a
  \<^verbatim>\<open>Meta\<close> that has the attribute decides; the \<^verbatim>\<open>else\<close> of the loop gives False.
\<close>

fun inherit_ordered :: "pyclass list \<Rightarrow> bool" where
  "inherit_ordered [] = False"
| "inherit_ordered (base # bases) =
    (case b_Meta base of
       Some m \<Rightarrow> (case m_ordered m of Some b \<Rightarrow> b | None \<Rightarrow> inherit_ordered bases)
     | None \<Rightarrow> inherit_ordered bases)"

text \<open>
  \<^verbatim>\<open>getattr(klass, 'Meta')\<close>: the first \<^verbatim>\<open>Meta\<close> found in a \<^verbatim>\<open>__dict__\<close> along the
  method resolution order.
\<close>

fun getattr_Meta :: "(string \<times> attr) list list \<Rightarrow> exn + meta" where
  "getattr_Meta [] = Inl (AttributeError ''Meta'')"
| "getattr_Meta (d # ds) = (case own_Meta d of Some m \<Rightarrow> Inr m | None \<Rightarrow> getattr_Meta ds)"

text \<open>A class made by \<^verbatim>\<open>SchemaMeta.__new__\<close>.\<close>

record klass =
  k_dict :: "(string \<times> attr) list"
  k_Meta :: meta
  k_opts :: opts
  k_ordered :: bool
  k_declared_fields :: "(string \<times> fieldval) list"

definition get_declared_fields ::
  "(string \<times> fieldval) list \<Rightarrow> (string \<times> fieldval) list \<Rightarrow> (string \<times> fieldval) list" where
  "get_declared_fields cls_fields inherited_fields = dict_of (inherited_fields @ cls_fields)"

text \<open>
  \<^verbatim>\<open>SchemaMeta.__new__(mcs, name, bases, attrs)\<close>. \<open>ancestors\<close> is the method
  resolution order of the new class without the class itself, which Python computes from
  \<open>bases\<close>.
\<close>

definition SchemaMeta_new ::
  "runtime \<Rightarrow> pyclass list \<Rightarrow> pyclass list \<Rightarrow> (string \<times> attr) list \<Rightarrow> exn + klass" where
  "SchemaMeta_new rt bases ancestors attrs =
    (let ordered0 = (case own_Meta attrs of Some m \<Rightarrow> getattr_default (m_ordered m) False
                     | None \<Rightarrow> False);
         ordered = (if \<not> ordered0 then inherit_ordered bases else ordered0);
         cls_fields = get_fields rt attrs ordered;
         attrs' = pop_fields attrs;
         self = \<lparr>b_dict = attrs', b_Meta = None, b_declared_fields = None\<rparr>;
         inherited_fields = get_fields_by_mro rt (self # ancestors) False
     in case getattr_Meta (attrs' # map b_dict ancestors) of
          Inl e \<Rightarrow> Inl e
        | Inr meta \<Rightarrow>
           (case SchemaOpts_init meta of
              Inl e \<Rightarrow> Inl e
            | Inr opts \<Rightarrow>
                Inr \<lparr>k_dict = attrs', k_Meta = meta, k_opts = opts, k_ordered = ordered,
                  k_declared_fields =
                    get_declared_fields (cls_fields @ o_include opts) inherited_fields\<rparr>))"


text \<open>
  \<^verbatim>\<open>BaseSchema\<close> is an ordinary class: its \<^verbatim>\<open>__dict__\<close> holds the empty \<^verbatim>\<open>Meta\<close>,
  methods and constants, and no field. \<^verbatim>\<open>object\<close> has neither.
\<close>

definition BaseSchema :: pyclass where
  "BaseSchema = \<lparr>b_dict = [(''TYPE_MAPPING'', AOther), (''OPTIONS_CLASS'', AOther),
       (''Meta'', AMeta empty_Meta), (''handle_error'', AOther), (''dump'', AOther),
       (''load'', AOther)],
     b_Meta = Some empty_Meta, b_declared_fields = None\<rparr>"

definition object_class :: pyclass where
  "object_class = \<lparr>b_dict = [], b_Meta = None, b_declared_fields = None\<rparr>"

section \<open>Hooks, validators and the marshalling objects\<close>

text \<open>
  \<^verbatim>\<open>marshmallow.marshalling\<close> and the decorated methods of a schema are not part of
  \<^verbatim>\<open>schema.py\<close>; they enter the model as functions. The unmarshaller keeps the error
  dictionary, the names and the fields of the last failure; it is assumed to change its
  error dictionary in place, so that the local name \<^verbatim>\<open>errors\<close> of \<^verbatim>\<open>_do_load\<close> and
  \<^verbatim>\<open>self._unmarshal.errors\<close> stay one object.
\<close>

record unmarshaller =
  u_errors :: errors
  u_error_field_names :: "string list"
  u_error_fields :: "fieldval list"

datatype tag = PRE_DUMP | POST_DUMP | PRE_LOAD | POST_LOAD

text \<open>
  A method registered under \<^verbatim>\<open>(tag, pass_many)\<close>: its name, the \<^verbatim>\<open>pass_original\<close>
  entry of its \<^verbatim>\<open>__marshmallow_kwargs__\<close>, and what it returns for a list of positional
  arguments (\<open>PNone\<close> for \<^verbatim>\<open>None\<close>).
\<close>

record processor =
  p_name :: string
  p_pass_original :: bool
  p_call :: "pyval list \<Rightarrow> pyval"

text \<open>
  A method registered under \<^verbatim>\<open>(VALIDATES, False)\<close> with its \<^verbatim>\<open>field_name\<close>;
  \<open>fv_call_and_store value field_obj index\<close> is the effect of
  \<^verbatim>\<open>self._unmarshal.call_and_store(getter_func=validator, data=value, ...)\<close> on the
  unmarshaller.
\<close>

record field_validator =
  fv_name :: string
  fv_field_name :: string
  fv_call_and_store :: "pyval \<Rightarrow> fieldval \<Rightarrow> nat option \<Rightarrow> unmarshaller \<Rightarrow> unmarshaller"

text \<open>
  A method registered under \<^verbatim>\<open>(VALIDATES_SCHEMA, pass_many)\<close>;
  \<open>sv_run output original_data fields_dict many index\<close> is the effect of
  \<^verbatim>\<open>self._unmarshal.run_validator(validator, output, original_data, self.fields,
  many=many, index=index, pass_original=pass_original)\<close>: the \<^verbatim>\<open>ValidationError\<close> it
  raises, if any, and the unmarshaller afterwards.
\<close>

record schema_validator =
  sv_name :: string
  sv_pass_original :: bool
  sv_run :: "pyval \<Rightarrow> pyval \<Rightarrow> (string \<times> fieldval) list \<Rightarrow> bool \<Rightarrow> nat option
               \<Rightarrow> unmarshaller \<Rightarrow> verror option \<times> unmarshaller"

text \<open>
  \<open>Marshaller_call obj fields_dict many index_errors\<close> is \<^verbatim>\<open>self._marshal(...)\<close>: the
  serialized data or the \<^verbatim>\<open>ValidationError\<close> raised, and \<^verbatim>\<open>self._marshal.errors\<close>
  afterwards. \<open>Unmarshaller_call data fields_dict many partial index_errors\<close> is
  \<^verbatim>\<open>self._unmarshal(...)\<close> likewise. The prefix, the accessor and the dictionary class
  are left out.
\<close>

record marshalling =
  Marshaller_call :: "pyval \<Rightarrow> (string \<times> fieldval) list \<Rightarrow> bool \<Rightarrow> bool \<Rightarrow> errors
                        \<Rightarrow> (verror + pyval) \<times> errors"
  Unmarshaller_call :: "pyval \<Rightarrow> (string \<times> fieldval) list \<Rightarrow> bool \<Rightarrow> pyval \<Rightarrow> bool
                        \<Rightarrow> unmarshaller \<Rightarrow> (verror + pyval) \<times> unmarshaller"

text \<open>
  What a call leaves behind for an observer: every hook invocation with its arguments, and
  every call of an error handler. Hooks and handlers are taken to return.
\<close>

datatype event =
    Processor tag bool string "pyval list"
  | Error_handler errors pyval
  | Handle_error_dump errors pyval
  | Handle_error_load verror pyval

section \<open>Schema instances\<close>

text \<open>
  The class attributes \<^verbatim>\<open>__processors__\<close> and \<^verbatim>\<open>__error_handler__\<close> that an instance
  reads: the registry as \<^verbatim>\<open>_resolve_processors\<close> left it, and whether a callable
  deprecated error handler is set.
\<close>

record registry =
  r_processors :: "tag \<Rightarrow> bool \<Rightarrow> processor list"
  r_field_validators :: "field_validator list"
  r_schema_validators :: "bool \<Rightarrow> schema_validator list"
  r_error_handler :: bool

record schema =
  s_declared_fields :: "(string \<times> fieldval) list"
  s_opts :: opts
  s_registry :: registry
  s_many :: bool
  s_only :: "string list"
  s_exclude :: "string list"
  s_prefix :: string
  s_strict :: bool
  s_ordered :: bool
  s_load_only :: "string list"
  s_dump_only :: "string list"
  s_partial :: pyval
  s_fields :: "(string \<times> fieldval) list"
  s_marshal_errors :: errors
  s_unmarshal :: unmarshaller
  s_extra :: "(string \<times> pyval) list option"
  s_context :: "(string \<times> pyval) list"

text \<open>
  \<^verbatim>\<open>set_class\<close> is \<^verbatim>\<open>OrderedSet\<close> or \<^verbatim>\<open>set\<close>. An ordered set is a list without
  repetition, the first occurrence kept; for a plain \<^verbatim>\<open>set\<close> the list stands for one
  iteration order, and only membership is meant. The operators follow the
  \<^verbatim>\<open>MutableSet\<close> mixins: \<^verbatim>\<open>a & b\<close> filters \<open>b\<close>, \<^verbatim>\<open>a | b\<close> chains, \<^verbatim>\<open>a - b\<close>
  filters \<open>a\<close>.
\<close>

definition set_class :: "string list \<Rightarrow> string list" where
  "set_class xs = rev (remdups (rev xs))"

definition set_and :: "string list \<Rightarrow> string list \<Rightarrow> string list" where
  "set_and a b = filter (\<lambda>v. v \<in> set a) b"

definition set_or :: "string list \<Rightarrow> string list \<Rightarrow> string list" where
  "set_or a b = a @ filter (\<lambda>v. v \<notin> set a) b"

definition set_minus :: "string list \<Rightarrow> string list \<Rightarrow> string list" where
  "set_minus a b = filter (\<lambda>v. v \<notin> set b) a"

text \<open>The first half of \<^verbatim>\<open>_update_fields\<close>: the names handed to \<^verbatim>\<open>__filter_fields\<close>.\<close>

definition field_names_of :: "schema \<Rightarrow> string list" where
  "field_names_of self =
    (let field_names =
       (if s_only self \<noteq> [] then
          (if o_fields (s_opts self) \<noteq> []
           then set_and (set_class (o_fields (s_opts self))) (set_class (s_only self))
           else set_class (s_only self))
        else if o_fields (s_opts self) \<noteq> [] then set_class (o_fields (s_opts self))
        else if o_additional (s_opts self) \<noteq> []
        then set_or (set_class (map fst (s_declared_fields self)))
                    (set_class (o_additional (s_opts self)))
        else set_class (map fst (s_declared_fields self)));
       excludes = set_or (set_class (o_exclude (s_opts self))) (set_class (s_exclude self))
     in if excludes \<noteq> [] then set_minus field_names excludes else field_names)"

section \<open>Field resolution: \<^verbatim>\<open>__filter_fields\<close>, \<^verbatim>\<open>__set_field_attrs\<close>, \<^verbatim>\<open>_update_fields\<close>\<close>

text \<open>The table \<^verbatim>\<open>TYPE_MAPPING\<close>.\<close>

definition TYPE_MAPPING :: "(pytype \<times> field_kind) list" where
  "TYPE_MAPPING =
    [(text_type, fields_String),
     (binary_type, fields_String),
     (dt_datetime, fields_DateTime),
     (float_type, fields_Float),
     (bool_type, fields_Boolean),
     (tuple_type, fields_Raw),
     (list_type, fields_Raw),
     (set_type, fields_Raw),
     (int_type, fields_Integer),
     (uuid_UUID, fields_UUID),
     (dt_time, fields_Time),
     (dt_date, fields_Date),
     (dt_timedelta, fields_TimeDelta),
     (decimal_Decimal, fields_Decimal)]"

text \<open>\<^verbatim>\<open>self.TYPE_MAPPING.get(attribute_type, fields.Field)\<close>.\<close>

definition TYPE_MAPPING_get :: "pytype \<Rightarrow> field_kind" where
  "TYPE_MAPPING_get t = (case map_of TYPE_MAPPING t of Some k \<Rightarrow> k | None \<Rightarrow> fields_Field)"

text \<open>
  The prototype of a collection: \<^verbatim>\<open>obj[0]\<close> if \<open>obj\<close> has \<^verbatim>\<open>__getitem__\<close>, else
  \<^verbatim>\<open>next(iter(obj))\<close>. \<open>Inr None\<close> is the caught \<^verbatim>\<open>StopIteration\<close> or
  \<^verbatim>\<open>IndexError\<close>; any other exception leaves the method. A dictionary with string keys
  has no key 0; a value that is not iterable gives a \<^verbatim>\<open>TypeError\<close>.
\<close>

fun obj_prototype :: "pyval \<Rightarrow> exn + pyval option" where
  "obj_prototype (PList xs) = (case xs of [] \<Rightarrow> Inr None | x # _ \<Rightarrow> Inr (Some x))"
| "obj_prototype (PTuple xs) = (case xs of [] \<Rightarrow> Inr None | x # _ \<Rightarrow> Inr (Some x))"
| "obj_prototype (PText s) = (case s of [] \<Rightarrow> Inr None | c # _ \<Rightarrow> Inr (Some (PText [c])))"
| "obj_prototype (PBytes s) = (case s of [] \<Rightarrow> Inr None | c # _ \<Rightarrow> Inr (Some (PBytes [c])))"
| "obj_prototype (PDict kvs) = Inl (KeyError ''0'')"
| "obj_prototype (PSet xs) = (case xs of [] \<Rightarrow> Inr None | x # _ \<Rightarrow> Inr (Some x))"
| "obj_prototype (PCursor xs) = (case xs of [] \<Rightarrow> Inr None | x # _ \<Rightarrow> Inr (Some x))"
| "obj_prototype v = Inl (TypeError ''object is not iterable'')"

text \<open>The message of the lookup error, \<^verbatim>\<open>'"{0}" is not a valid field for {1}.'.format(key, obj)\<close>.\<close>

definition not_a_valid_field :: "runtime \<Rightarrow> string \<Rightarrow> pyval \<Rightarrow> string" where
  "not_a_valid_field rt key obj =
     [CHR 0x22] @ key @ [CHR 0x22] @ '' is not a valid field for '' @ rt_str rt obj @ ''.''"

text \<open>
  \<^verbatim>\<open>type(obj[key])\<close> for a mapping, \<^verbatim>\<open>type(getattr(obj, key))\<close> otherwise, with the
  \<^verbatim>\<open>KeyError\<close> or \<^verbatim>\<open>AttributeError\<close> raised again under the new message. An
  attribute is an instance attribute, which only a \<open>PObj\<close> lists, or one that the class
  of the value provides, which the runtime knows.
\<close>

fun attribute_type :: "runtime \<Rightarrow> pyval \<Rightarrow> string \<Rightarrow> exn + pytype" where
  "attribute_type rt (PDict kvs) key =
     (case map_of kvs key of
        Some v \<Rightarrow> Inr (type_of v)
      | None \<Rightarrow> Inl (KeyError (not_a_valid_field rt key (PDict kvs))))"
| "attribute_type rt (PObj attrs) key =
     (case map_of attrs key of
        Some v \<Rightarrow> Inr (type_of v)
      | None \<Rightarrow>
         (case rt_getattr rt (PObj attrs) key of
            Some t \<Rightarrow> Inr t
          | None \<Rightarrow> Inl (AttributeError (not_a_valid_field rt key (PObj attrs)))))"
| "attribute_type rt v key =
     (case rt_getattr rt v key of
        Some t \<Rightarrow> Inr t
      | None \<Rightarrow> Inl (AttributeError (not_a_valid_field rt key v)))"

text \<open>
  The body of the loop of \<^verbatim>\<open>__filter_fields\<close>: the field for one key, and the running
  creation index after it, one more when a field was made.
\<close>

definition resolve_field ::
  "runtime \<Rightarrow> nat \<Rightarrow> (string \<times> fieldval) list \<Rightarrow> pyval \<Rightarrow> string \<Rightarrow> exn + fieldval \<times> nat" where
  "resolve_field rt idx declared obj key =
    (case map_of declared key of
       Some f \<Rightarrow> Inr (f, idx)
     | None \<Rightarrow>
        (if truthy obj then
           (case attribute_type rt obj key of
              Inl err \<Rightarrow> Inl err
            | Inr t \<Rightarrow> Inr (Inst (new_field (TYPE_MAPPING_get t) idx), Suc idx))
         else Inr (Inst (new_field fields_Field idx), Suc idx)))"

text \<open>
  The loop over \<open>field_names\<close>, \<open>ret\<close> the dictionary built so far, \<open>idx\<close> the running
  creation index.
\<close>

fun filter_loop ::
  "runtime \<Rightarrow> (string \<times> fieldval) list \<Rightarrow> string list \<Rightarrow> pyval \<Rightarrow> (string \<times> fieldval) list
     \<Rightarrow> nat \<Rightarrow> exn + (string \<times> fieldval) list" where
  "filter_loop rt declared [] obj ret idx = Inr ret"
| "filter_loop rt declared (key # keys) obj ret idx =
    (case resolve_field rt idx declared obj key of
       Inl err \<Rightarrow> Inl err
     | Inr (f, idx') \<Rightarrow> filter_loop rt declared keys obj (AList.update key f ret) idx')"

definition filter_fields ::
  "runtime \<Rightarrow> schema \<Rightarrow> string list \<Rightarrow> pyval \<Rightarrow> bool \<Rightarrow> exn + (string \<times> fieldval) list" where
  "filter_fields rt self field_names obj many =
    (if truthy obj \<and> many then
       (case obj_prototype obj of
          Inl err \<Rightarrow> Inl err
        | Inr None \<Rightarrow> Inr (s_declared_fields self)
        | Inr (Some p) \<Rightarrow>
            filter_loop rt (s_declared_fields self) field_names p [] (rt_creation_index rt))
     else filter_loop rt (s_declared_fields self) field_names obj [] (rt_creation_index rt))"

fun kind_name :: "field_kind \<Rightarrow> string" where
  "kind_name fields_Field = ''Field''"
| "kind_name fields_Raw = ''Raw''"
| "kind_name fields_String = ''String''"
| "kind_name fields_DateTime = ''DateTime''"
| "kind_name fields_Float = ''Float''"
| "kind_name fields_Boolean = ''Boolean''"
| "kind_name fields_Integer = ''Integer''"
| "kind_name fields_UUID = ''UUID''"
| "kind_name fields_Time = ''Time''"
| "kind_name fields_Date = ''Date''"
| "kind_name fields_TimeDelta = ''TimeDelta''"
| "kind_name fields_Decimal = ''Decimal''"

text \<open>
  One round of the loop of \<^verbatim>\<open>__set_field_attrs\<close>. \<^verbatim>\<open>on_bind_field\<close> does nothing.
  Modelled from the spec: \<^verbatim>\<open>Field._add_to_schema\<close>, of \<^verbatim>\<open>fields.py\<close>, "sets each
  resolved field's parent-schema and bound name". Called on a field class it raises the
  \<^verbatim>\<open>TypeError\<close> that the method turns into its own.
\<close>

fun bind_field :: "schema \<Rightarrow> string \<Rightarrow> fieldval \<Rightarrow> exn + fieldval" where
  "bind_field self field_name (Inst f) =
     Inr (Inst (f\<lparr>f_load_only := (field_name \<in> set (s_load_only self) \<or> f_load_only f),
                  f_dump_only := (field_name \<in> set (s_dump_only self) \<or> f_dump_only f),
                  f_name := Some field_name,
                  f_parent := True\<rparr>))"
| "bind_field self field_name (Cls k) =
     Inl (TypeError (''Field for '' @ [CHR 0x22] @ field_name @ [CHR 0x22] @
        '' must be declared as a Field instance, not a class. Did you mean '' @
        [CHR 0x22] @ ''fields.'' @ kind_name k @ ''()'' @ [CHR 0x22] @ ''?''))"

fun set_field_attrs ::
  "schema \<Rightarrow> (string \<times> fieldval) list \<Rightarrow> exn + (string \<times> fieldval) list" where
  "set_field_attrs self [] = Inr []"
| "set_field_attrs self ((field_name, field_obj) # rest) =
    (case bind_field self field_name field_obj of
       Inl err \<Rightarrow> Inl err
     | Inr f \<Rightarrow>
        (case set_field_attrs self rest of
           Inl err \<Rightarrow> Inl err
         | Inr rest' \<Rightarrow> Inr ((field_name, f) # rest')))"

text \<open>
  \<^verbatim>\<open>_update_fields(obj, many)\<close>. The field objects of \<open>ret\<close> that come from
  \<^verbatim>\<open>self.declared_fields\<close> are the same objects, so binding them changes the declared
  fields as well.
\<close>

definition update_fields :: "runtime \<Rightarrow> schema \<Rightarrow> pyval \<Rightarrow> bool \<Rightarrow> exn + schema" where
  "update_fields rt self obj many =
    (case filter_fields rt self (field_names_of self) obj many of
       Inl err \<Rightarrow> Inl err
     | Inr ret \<Rightarrow>
        (case set_field_attrs self ret of
           Inl err \<Rightarrow> Inl err
         | Inr ret' \<Rightarrow>
            Inr (self\<lparr>
              s_declared_fields :=
                map (\<lambda>(k, f). (k, case map_of ret' k of Some f' \<Rightarrow> f' | None \<Rightarrow> f))
                    (s_declared_fields self),
              s_fields := ret'\<rparr>)))"

text \<open>
  The arguments of \<^verbatim>\<open>BaseSchema.__init__\<close>, and the method; the registry, a class
  attribute, is passed along with the class.
\<close>

record init_args =
  a_extra :: "(string \<times> pyval) list option"
  a_only :: "string list"
  a_exclude :: "string list"
  a_prefix :: string
  a_strict :: bool
  a_many :: bool
  a_context :: "(string \<times> pyval) list option"
  a_load_only :: "string list"
  a_dump_only :: "string list"
  a_partial :: pyval

definition default_args :: init_args where
  "default_args = \<lparr>a_extra = None, a_only = [], a_exclude = [], a_prefix = [],
     a_strict = False, a_many = False, a_context = None, a_load_only = [],
     a_dump_only = [], a_partial = PBool False\<rparr>"

definition Schema_init :: "runtime \<Rightarrow> klass \<Rightarrow> registry \<Rightarrow> init_args \<Rightarrow> exn + schema" where
  "Schema_init rt cls reg args =
     update_fields rt
       \<lparr>s_declared_fields = k_declared_fields cls,
        s_opts = k_opts cls,
        s_registry = reg,
        s_many = a_many args,
        s_only = a_only args,
        s_exclude = a_exclude args,
        s_prefix = a_prefix args,
        s_strict = (a_strict args \<or> o_strict (k_opts cls)),
        s_ordered = o_ordered (k_opts cls),
        s_load_only = (if a_load_only args \<noteq> [] then a_load_only args
                       else o_load_only (k_opts cls)),
        s_dump_only = (if a_dump_only args \<noteq> [] then a_dump_only args
                       else o_dump_only (k_opts cls)),
        s_partial = a_partial args,
        s_fields = [],
        s_marshal_errors = [],
        s_unmarshal = \<lparr>u_errors = [], u_error_field_names = [], u_error_fields = []\<rparr>,
        s_extra = a_extra args,
        s_context = (case a_context args of Some c \<Rightarrow> c | None \<Rightarrow> [])\<rparr>
       PNone (a_many args)"

section \<open>Hook invocation\<close>

text \<open>
  A computation that leaves a trace and returns or raises; \<open>then_run\<close> runs the second
  part on the result of the first and stops at an exception.
\<close>

definition then_run ::
  "event list \<times> (exn + 'a) \<Rightarrow> ('a \<Rightarrow> event list \<times> (exn + 'b)) \<Rightarrow> event list \<times> (exn + 'b)" where
  "then_run m f =
    (case m of
       (tr, Inl err) \<Rightarrow> (tr, Inl err)
     | (tr, Inr x) \<Rightarrow> (case f x of (tr', r) \<Rightarrow> (tr @ tr', r)))"

text \<open>
  \<^verbatim>\<open>utils.if_none(value, default)\<close>, of \<^verbatim>\<open>utils.py\<close>: a hook that returns \<^verbatim>\<open>None\<close>
  leaves the data as it is.
\<close>

definition if_none :: "pyval \<Rightarrow> pyval \<Rightarrow> pyval" where
  "if_none v dflt = (if v = PNone then dflt else v)"

text \<open>
  \<^verbatim>\<open>for item in data\<close>: the items of a list, tuple, set or cursor, the keys of a
  dictionary, the characters of a string; a \<^verbatim>\<open>TypeError\<close> otherwise.
\<close>

fun iter_items :: "pyval \<Rightarrow> exn + pyval list" where
  "iter_items (PList xs) = Inr xs"
| "iter_items (PTuple xs) = Inr xs"
| "iter_items (PSet xs) = Inr xs"
| "iter_items (PCursor xs) = Inr xs"
| "iter_items (PDict kvs) = Inr (map (\<lambda>kv. PText (fst kv)) kvs)"
| "iter_items (PText s) = Inr (map (\<lambda>c. PText [c]) s)"
| "iter_items (PBytes s) = Inr (map (\<lambda>c. PBytes [c]) s)"
| "iter_items v = Inl (TypeError ''object is not iterable'')"

text \<open>The body of the loop of \<^verbatim>\<open>_invoke_processors\<close>, for one registered method.\<close>

definition run_processor ::
  "tag \<Rightarrow> bool \<Rightarrow> processor \<Rightarrow> pyval \<Rightarrow> bool \<Rightarrow> pyval \<Rightarrow> event list \<times> (exn + pyval)" where
  "run_processor tag_name pass_many p data many original_data =
    (if pass_many then
       (let args = (if p_pass_original p then [data, PBool many, original_data]
                    else [data, PBool many])
        in ([Processor tag_name pass_many (p_name p) args],
            Inr (if_none (p_call p args) data)))
     else if many then
       (case iter_items data of
          Inl err \<Rightarrow> ([], Inl err)
        | Inr items \<Rightarrow>
           (let args = (\<lambda>item. if p_pass_original p then [item, original_data] else [item])
            in (map (\<lambda>item. Processor tag_name pass_many (p_name p) (args item)) items,
                Inr (PList (map (\<lambda>item. if_none (p_call p (args item)) item) items)))))
     else
       (let args = (if p_pass_original p then [data, original_data] else [data])
        in ([Processor tag_name pass_many (p_name p) args],
            Inr (if_none (p_call p args) data))))"

fun processors_loop ::
  "tag \<Rightarrow> bool \<Rightarrow> processor list \<Rightarrow> pyval \<Rightarrow> bool \<Rightarrow> pyval \<Rightarrow> event list \<times> (exn + pyval)" where
  "processors_loop tag_name pass_many [] data many original_data = ([], Inr data)"
| "processors_loop tag_name pass_many (p # ps) data many original_data =
     then_run (run_processor tag_name pass_many p data many original_data)
       (\<lambda>data'. processors_loop tag_name pass_many ps data' many original_data)"

definition invoke_processors ::
  "schema \<Rightarrow> tag \<Rightarrow> bool \<Rightarrow> pyval \<Rightarrow> bool \<Rightarrow> pyval \<Rightarrow> event list \<times> (exn + pyval)" where
  "invoke_processors self tag_name pass_many data many original_data =
     processors_loop tag_name pass_many
       (r_processors (s_registry self) tag_name pass_many) data many original_data"

definition invoke_dump_processors ::
  "schema \<Rightarrow> tag \<Rightarrow> pyval \<Rightarrow> bool \<Rightarrow> pyval \<Rightarrow> event list \<times> (exn + pyval)" where
  "invoke_dump_processors self tag_name data many original_data =
     then_run (invoke_processors self tag_name False data many original_data)
       (\<lambda>data'. invoke_processors self tag_name True data' many original_data)"

definition invoke_load_processors ::
  "schema \<Rightarrow> tag \<Rightarrow> pyval \<Rightarrow> bool \<Rightarrow> pyval \<Rightarrow> event list \<times> (exn + pyval)" where
  "invoke_load_processors self tag_name data many original_data =
     then_run (invoke_processors self tag_name True data many original_data)
       (\<lambda>data'. invoke_processors self tag_name False data' many original_data)"

section \<open>The dump pipeline\<close>

text \<open>\<^verbatim>\<open>each.update(self.extra)\<close>: defined for a dictionary and, adding the keys, for a set.\<close>

fun py_update :: "pyval \<Rightarrow> (string \<times> pyval) list \<Rightarrow> exn + pyval" where
  "py_update (PDict kvs) extra = Inr (PDict (dict_update kvs extra))"
| "py_update (PSet xs) extra =
     Inr (PSet (xs @ filter (\<lambda>k. k \<notin> set xs) (map (\<lambda>kv. PText (fst kv)) extra)))"
| "py_update v extra = Inl (AttributeError ''update'')"

fun map_exn :: "('a \<Rightarrow> exn + 'b) \<Rightarrow> 'a list \<Rightarrow> exn + 'b list" where
  "map_exn f [] = Inr []"
| "map_exn f (x # xs) =
    (case f x of
       Inl err \<Rightarrow> Inl err
     | Inr y \<Rightarrow> (case map_exn f xs of Inl err \<Rightarrow> Inl err | Inr ys \<Rightarrow> Inr (y # ys)))"

text \<open>The collection after its items were changed in place.\<close>

fun with_items :: "pyval \<Rightarrow> pyval list \<Rightarrow> pyval" where
  "with_items (PList xs) ys = PList ys"
| "with_items (PTuple xs) ys = PTuple ys"
| "with_items (PCursor xs) ys = PCursor ys"
| "with_items v ys = v"

definition postprocess :: "schema \<Rightarrow> pyval \<Rightarrow> bool \<Rightarrow> pyval \<Rightarrow> event list \<times> (exn + pyval)" where
  "postprocess self data many obj =
    then_run
      (case s_extra self of
         None \<Rightarrow> ([], Inr data)
       | Some extra \<Rightarrow>
          (if extra = [] then ([], Inr data)
           else if many then
             (case iter_items data of
                Inl err \<Rightarrow> ([], Inl err)
              | Inr items \<Rightarrow>
                 (case map_exn (\<lambda>each. py_update each extra) items of
                    Inl err \<Rightarrow> ([], Inl err)
                  | Inr items' \<Rightarrow> ([], Inr (with_items data items'))))
           else ([], py_update data extra)))
      (\<lambda>data'.
         if s_marshal_errors self \<noteq> []
         then ([Handle_error_dump (s_marshal_errors self) obj], Inr data')
         else ([], Inr data'))"

text \<open>
  \<^verbatim>\<open>dump(obj, many, update_fields)\<close>: the trace, and the exception raised or the
  \<^verbatim>\<open>MarshalResult\<close> with the instance as the call leaves it. The deprecation warning has
  no effect; a generator is not among the values.
\<close>

definition dump ::
  "runtime \<Rightarrow> marshalling \<Rightarrow> schema \<Rightarrow> pyval \<Rightarrow> bool option \<Rightarrow> bool
     \<Rightarrow> event list \<times> (exn + (pyval \<times> errors) \<times> schema)" where
  "dump rt mar self obj many_arg upd =
    (let many = (case many_arg of None \<Rightarrow> s_many self | Some m \<Rightarrow> m) in
     then_run (invoke_dump_processors self PRE_DUMP obj many obj) (\<lambda>processed_obj.
     then_run ([], if upd then update_fields rt self processed_obj many else Inr self) (\<lambda>self1.
     (case Marshaller_call mar processed_obj (s_fields self1) many
             (o_index_errors (s_opts self1)) (s_marshal_errors self1) of
        (r, marshal_errors) \<Rightarrow>
         (let self2 = self1\<lparr>s_marshal_errors := marshal_errors\<rparr> in
          then_run ([], case r of
                          Inl error \<Rightarrow>
                            if s_strict self2 then Inl (ValidationError error)
                            else Inr (e_data error, marshal_errors)
                        | Inr preresult \<Rightarrow> Inr (preresult, []))
            (\<lambda>(preresult, errors).
          then_run (postprocess self2 preresult many obj) (\<lambda>result.
          then_run (invoke_dump_processors self2 POST_DUMP result many obj) (\<lambda>result'.
            ([], Inr ((result', errors), self2))))))))))"

section \<open>The load pipeline\<close>

text \<open>
  \<^verbatim>\<open>item[field_name]\<close>: a \<^verbatim>\<open>KeyError\<close> for a dictionary without the key, a
  \<^verbatim>\<open>TypeError\<close> for a value that cannot be indexed by a string.
\<close>

fun getitem :: "pyval \<Rightarrow> string \<Rightarrow> exn + pyval" where
  "getitem (PDict kvs) key =
     (case map_of kvs key of Some v \<Rightarrow> Inr v | None \<Rightarrow> Inl (KeyError key))"
| "getitem v key = Inl (TypeError ''indices must be integers or object is not subscriptable'')"

text \<open>
  The \<^verbatim>\<open>try ... except KeyError: pass ... else: call_and_store\<close> of
  \<^verbatim>\<open>_invoke_field_validators\<close>, for one item.
\<close>

definition validate_field_of ::
  "field_validator \<Rightarrow> fieldval \<Rightarrow> nat option \<Rightarrow> pyval \<Rightarrow> unmarshaller \<Rightarrow> exn + unmarshaller" where
  "validate_field_of fv field_obj index item um =
    (case getitem item (fv_field_name fv) of
       Inl (KeyError k) \<Rightarrow> Inr um
     | Inl err \<Rightarrow> Inl err
     | Inr v \<Rightarrow> Inr (fv_call_and_store fv v field_obj index um))"

text \<open>\<^verbatim>\<open>for idx, item in enumerate(data)\<close>, from index \<open>idx\<close> on.\<close>

fun validate_field_items ::
  "field_validator \<Rightarrow> fieldval \<Rightarrow> bool \<Rightarrow> nat \<Rightarrow> pyval list \<Rightarrow> unmarshaller
     \<Rightarrow> exn + unmarshaller" where
  "validate_field_items fv field_obj index_errors idx [] um = Inr um"
| "validate_field_items fv field_obj index_errors idx (item # items) um =
    (case validate_field_of fv field_obj (if index_errors then Some idx else None) item um of
       Inl err \<Rightarrow> Inl err
     | Inr um' \<Rightarrow> validate_field_items fv field_obj index_errors (Suc idx) items um')"

definition does_not_exist :: "string \<Rightarrow> string" where
  "does_not_exist field_name = [CHR 0x22] @ field_name @ [CHR 0x22] @ '' field does not exist.''"

fun field_validators_loop ::
  "schema \<Rightarrow> field_validator list \<Rightarrow> pyval \<Rightarrow> bool \<Rightarrow> unmarshaller \<Rightarrow> exn + unmarshaller" where
  "field_validators_loop self [] data many um = Inr um"
| "field_validators_loop self (fv # fvs) data many um =
    (case map_of (s_fields self) (fv_field_name fv) of
       None \<Rightarrow>
        (if map_of (s_declared_fields self) (fv_field_name fv) \<noteq> None
         then field_validators_loop self fvs data many um
         else Inl (ValueError (does_not_exist (fv_field_name fv))))
     | Some field_obj \<Rightarrow>
        (case (if many then
                 (case iter_items data of
                    Inl err \<Rightarrow> Inl err
                  | Inr items \<Rightarrow>
                     validate_field_items fv field_obj (o_index_errors (s_opts self)) 0 items um)
               else validate_field_of fv field_obj None data um) of
           Inl err \<Rightarrow> Inl err
         | Inr um' \<Rightarrow> field_validators_loop self fvs data many um'))"

definition invoke_field_validators ::
  "schema \<Rightarrow> pyval \<Rightarrow> bool \<Rightarrow> unmarshaller \<Rightarrow> exn + unmarshaller" where
  "invoke_field_validators self data many um =
     field_validators_loop self (r_field_validators (s_registry self)) data many um"

text \<open>
  \<^verbatim>\<open>try: run_validator(...) except ValidationError as err: errors.update(err.messages)\<close>:
  \<open>r\<close> is the error raised, if any.
\<close>

definition absorb :: "errors \<Rightarrow> verror option \<Rightarrow> errors" where
  "absorb errors r =
    (case r of None \<Rightarrow> errors | Some err \<Rightarrow> dict_update errors (e_messages err))"

text \<open>
  The inner loop of \<^verbatim>\<open>_invoke_validators\<close>, \<^verbatim>\<open>for idx, item in enumerate(data)\<close>, from
  index \<open>idx\<close> on; \<open>errors\<close> is the local dictionary of the method.
\<close>

fun validate_items ::
  "schema_validator \<Rightarrow> pyval \<Rightarrow> (string \<times> fieldval) list \<Rightarrow> bool \<Rightarrow> nat \<Rightarrow> pyval list
     \<Rightarrow> errors \<Rightarrow> unmarshaller \<Rightarrow> errors \<times> unmarshaller" where
  "validate_items sv original_data fields_dict many idx [] errors um = (errors, um)"
| "validate_items sv original_data fields_dict many idx (item # items) errors um =
    (case sv_run sv item original_data fields_dict many (Some idx) um of
       (r, um') \<Rightarrow>
         validate_items sv original_data fields_dict many (Suc idx) items (absorb errors r) um')"

fun validators_loop ::
  "schema \<Rightarrow> bool \<Rightarrow> schema_validator list \<Rightarrow> pyval \<Rightarrow> pyval \<Rightarrow> bool \<Rightarrow> errors
     \<Rightarrow> unmarshaller \<Rightarrow> exn + errors \<times> unmarshaller" where
  "validators_loop self pass_many [] data original_data many errors um = Inr (errors, um)"
| "validators_loop self pass_many (sv # svs) data original_data many errors um =
    (if many \<and> \<not> pass_many then
       (case iter_items data of
          Inl err \<Rightarrow> Inl err
        | Inr items \<Rightarrow>
           (case validate_items sv original_data (s_fields self) many 0 items errors um of
              (errors', um') \<Rightarrow>
                validators_loop self pass_many svs data original_data many errors' um'))
     else
       (case sv_run sv data original_data (s_fields self) many None um of
          (r, um') \<Rightarrow>
            validators_loop self pass_many svs data original_data many (absorb errors r) um'))"

text \<open>
  \<^verbatim>\<open>_invoke_validators(pass_many, data, original_data, many)\<close>: \<open>Inl\<close> is an exception
  other than \<^verbatim>\<open>ValidationError\<close>; \<open>Inr (Some err, um)\<close> is
  \<^verbatim>\<open>raise ValidationError(errors)\<close>, the exception made from the dictionary alone;
  \<open>Inr (None, um)\<close> is the return of \<^verbatim>\<open>None\<close>.
\<close>

definition invoke_validators ::
  "schema \<Rightarrow> bool \<Rightarrow> pyval \<Rightarrow> pyval \<Rightarrow> bool \<Rightarrow> unmarshaller
     \<Rightarrow> exn + verror option \<times> unmarshaller" where
  "invoke_validators self pass_many data original_data many um =
    (case validators_loop self pass_many (r_schema_validators (s_registry self) pass_many)
            data original_data many [] um of
       Inl err \<Rightarrow> Inl err
     | Inr (errors, um') \<Rightarrow>
        (if errors \<noteq> []
         then Inr (Some \<lparr>e_messages = errors, e_field_names = [], e_fields = [],
                         e_data = PNone\<rparr>, um')
         else Inr (None, um')))"

text \<open>
  Each of the two \<^verbatim>\<open>try: self._invoke_validators(...) except ValidationError as err:
  errors.update(err.messages)\<close> of \<^verbatim>\<open>_do_load\<close>; \<^verbatim>\<open>errors\<close> is the dictionary of the
  unmarshaller.
\<close>

definition validate_schema_step ::
  "schema \<Rightarrow> bool \<Rightarrow> pyval \<Rightarrow> pyval \<Rightarrow> bool \<Rightarrow> unmarshaller \<Rightarrow> exn + unmarshaller" where
  "validate_schema_step self pass_many result data many um =
    (case invoke_validators self pass_many result data many um of
       Inl err \<Rightarrow> Inl err
     | Inr (r, um') \<Rightarrow> Inr (um'\<lparr>u_errors := absorb (u_errors um') r\<rparr>))"

text \<open>The two steps in a row: the batch validators, then the others.\<close>

definition validate_schema ::
  "schema \<Rightarrow> pyval \<Rightarrow> pyval \<Rightarrow> bool \<Rightarrow> unmarshaller \<Rightarrow> exn + unmarshaller" where
  "validate_schema self result data many um =
    (case validate_schema_step self True result data many um of
       Inl err \<Rightarrow> Inl err
     | Inr um' \<Rightarrow> validate_schema_step self False result data many um')"

text \<open>\<^verbatim>\<open>partial = self.partial if partial is None else bool(partial)\<close>.\<close>

definition effective_partial :: "schema \<Rightarrow> pyval option \<Rightarrow> pyval" where
  "effective_partial self partial_arg =
    (case partial_arg of None \<Rightarrow> s_partial self | Some p \<Rightarrow> PBool (truthy p))"

text \<open>The call \<^verbatim>\<open>self._unmarshal(processed_data, self.fields, many=many, ...)\<close>.\<close>

definition unmarshal_step ::
  "marshalling \<Rightarrow> schema \<Rightarrow> pyval \<Rightarrow> bool \<Rightarrow> pyval option
     \<Rightarrow> (verror + pyval) \<times> unmarshaller" where
  "unmarshal_step mar self processed_data many partial_arg =
     Unmarshaller_call mar processed_data (s_fields self) many
       (effective_partial self partial_arg) (o_index_errors (s_opts self)) (s_unmarshal self)"

text \<open>
  \<^verbatim>\<open>_do_load\<close> up to the test \<^verbatim>\<open>if errors:\<close>: the result of unmarshalling and the
  unmarshaller, whose dictionary is the aggregate error map.
\<close>

definition load_errors ::
  "marshalling \<Rightarrow> schema \<Rightarrow> pyval \<Rightarrow> bool \<Rightarrow> pyval option
     \<Rightarrow> event list \<times> (exn + pyval \<times> unmarshaller)" where
  "load_errors mar self data many partial_arg =
    then_run (invoke_load_processors self PRE_LOAD data many data) (\<lambda>processed_data.
      (case unmarshal_step mar self processed_data many partial_arg of
         (r, um1) \<Rightarrow>
          (let result = (case r of Inl error \<Rightarrow> e_data error | Inr res \<Rightarrow> res) in
           ([], case invoke_field_validators self result many um1 of
                  Inl err \<Rightarrow> Inl err
                | Inr um2 \<Rightarrow>
                   (case validate_schema self result data many um2 of
                      Inl err \<Rightarrow> Inl err
                    | Inr um3 \<Rightarrow> Inr (result, um3))))))"

text \<open>
  \<^verbatim>\<open>ValidationError(errors, field_names=self._unmarshal.error_field_names,
  fields=self._unmarshal.error_fields, data=data)\<close>.
\<close>

definition aggregate_error :: "unmarshaller \<Rightarrow> pyval \<Rightarrow> verror" where
  "aggregate_error um data =
     \<lparr>e_messages = u_errors um, e_field_names = u_error_field_names um,
      e_fields = u_error_fields um, e_data = data\<rparr>"

text \<open>\<^verbatim>\<open>_do_load\<close> from the test \<^verbatim>\<open>if errors:\<close> on.\<close>

definition finish_load ::
  "schema \<Rightarrow> pyval \<Rightarrow> bool \<Rightarrow> bool \<Rightarrow> pyval \<Rightarrow> unmarshaller
     \<Rightarrow> event list \<times> (exn + (pyval \<times> errors) \<times> schema)" where
  "finish_load self data many postprocess_arg result um =
    (let errors = u_errors um;
         exc = aggregate_error um data
     in
     then_run
       (if errors \<noteq> [] then
          ((if r_error_handler (s_registry self) then [Error_handler errors data] else [])
             @ [Handle_error_load exc data],
           if s_strict self then Inl (ValidationError exc) else Inr ())
        else ([], Inr ()))
       (\<lambda>u.
     then_run
       (if errors = [] \<and> postprocess_arg
        then invoke_load_processors self POST_LOAD result many data
        else ([], Inr result))
       (\<lambda>result'. ([], Inr ((result', errors), self\<lparr>s_unmarshal := um\<rparr>)))))"

definition do_load ::
  "marshalling \<Rightarrow> schema \<Rightarrow> pyval \<Rightarrow> bool option \<Rightarrow> pyval option \<Rightarrow> bool
     \<Rightarrow> event list \<times> (exn + (pyval \<times> errors) \<times> schema)" where
  "do_load mar self data many_arg partial_arg postprocess_arg =
    (let many = (case many_arg of None \<Rightarrow> s_many self | Some m \<Rightarrow> m) in
     then_run (load_errors mar self data many partial_arg)
       (\<lambda>(result, um). finish_load self data many postprocess_arg result um))"

text \<open>\<^verbatim>\<open>validate(data, many)\<close>: the errors of a load without post-load hooks.\<close>

definition validate :: "marshalling \<Rightarrow> schema \<Rightarrow> pyval \<Rightarrow> bool option \<Rightarrow> exn + errors" where
  "validate mar self data many_arg =
     map_sum id (\<lambda>r. snd (fst r)) (snd (do_load mar self data many_arg None False))"

definition load ::
  "marshalling \<Rightarrow> schema \<Rightarrow> pyval \<Rightarrow> bool option \<Rightarrow> pyval option
     \<Rightarrow> event list \<times> (exn + (pyval \<times> errors) \<times> schema)" where
  "load mar self data many_arg partial_arg = do_load mar self data many_arg partial_arg True"

section \<open>The unmarshaller, from the specification\<close>

text \<open>
  Modelled from the spec: whether "\<^verbatim>\<open>partial\<close> is true for that field (partial may be a
  boolean for the whole load or a set of field names)". The unmarshaller, which decides it,
  is in \<^verbatim>\<open>marshalling.py\<close>, not among the sources.
\<close>

fun partial_for :: "pyval \<Rightarrow> string \<Rightarrow> bool" where
  "partial_for (PBool b) field_name = b"
| "partial_for (PSet names) field_name = (PText field_name \<in> set names)"
| "partial_for (PList names) field_name = (PText field_name \<in> set names)"
| "partial_for (PTuple names) field_name = (PText field_name \<in> set names)"
| "partial_for v field_name = False"

text \<open>
  Modelled from the spec: the value of a field in the input, if the input has it; an input
  that is not a dictionary has no field.
\<close>

fun input_value :: "pyval \<Rightarrow> string \<Rightarrow> pyval option" where
  "input_value (PDict kvs) field_name = map_of kvs field_name"
| "input_value v field_name = None"

text \<open>Modelled from the spec: the message of a "required-field error".\<close>

definition required_error :: string where
  "required_error = ''Missing data for required field.''"

text \<open>
  Modelled from the spec: step 3 of the load pipeline for one item, "deserialize each field
  via its contract, honoring \<^verbatim>\<open>partial\<close>: a field absent from the input is treated as
  missing and skipped rather than flagged required, when \<^verbatim>\<open>partial\<close> is true for that
  field. Per-field failures accumulate in the Error Model without halting sibling-field
  processing." \<open>des\<close> is the \<^verbatim>\<open>deserialize\<close> of the field contract: a message or a value.
\<close>

fun unmarshal_item ::
  "(field \<Rightarrow> pyval \<Rightarrow> string + pyval) \<Rightarrow> (string \<times> fieldval) list \<Rightarrow> pyval \<Rightarrow> pyval
     \<Rightarrow> (string \<times> pyval) list \<times> errors" where
  "unmarshal_item des [] item partial = ([], [])"
| "unmarshal_item des ((field_name, fv) # rest) item partial =
    (case unmarshal_item des rest item partial of
       (out, errs) \<Rightarrow>
        (case fv of
           Cls k \<Rightarrow> (out, errs)
         | Inst f \<Rightarrow>
            (case input_value item field_name of
               None \<Rightarrow>
                 if partial_for partial field_name then (out, errs)
                 else if f_required f
                 then (out, (KName field_name, Msgs [required_error]) # errs)
                 else (out, errs)
             | Some v \<Rightarrow>
                (case des f v of
                   Inl msg \<Rightarrow> (out, (KName field_name, Msgs [msg]) # errs)
                 | Inr v' \<Rightarrow> ((field_name, v') # out, errs)))))"

text \<open>
  Modelled from the spec: the unmarshaller as a whole. Its error state is "created fresh per
  invocation"; for a batch the errors are keyed "from index then field name, or field name
  then index, depending on \<^verbatim>\<open>index_errors\<close>"; a failure raises the error that carries
  the output so far.
\<close>

definition batch_errors :: "bool \<Rightarrow> string list \<Rightarrow> errors list \<Rightarrow> errors" where
  "batch_errors index_errors names es =
    (if index_errors
     then [(KIndex i, Nested e). (i, e) \<leftarrow> enumerate 0 es, e \<noteq> []]
     else [(KName n, Nested [(KIndex i, m). (i, e) \<leftarrow> enumerate 0 es,
                              m \<leftarrow> (case map_of e (KName n) of None \<Rightarrow> [] | Some m \<Rightarrow> [m])]).
           n \<leftarrow> names, \<exists>e\<in>set es. map_of e (KName n) \<noteq> None])"

definition spec_Unmarshaller ::
  "(field \<Rightarrow> pyval \<Rightarrow> string + pyval) \<Rightarrow> pyval \<Rightarrow> (string \<times> fieldval) list \<Rightarrow> bool \<Rightarrow> pyval
     \<Rightarrow> bool \<Rightarrow> unmarshaller \<Rightarrow> (verror + pyval) \<times> unmarshaller" where
  "spec_Unmarshaller des data fields_dict many partial index_errors um =
    (let (result, errors) =
       (if many then
          (let rs = map (\<lambda>item. unmarshal_item des fields_dict item partial)
                      (case iter_items data of Inl err \<Rightarrow> [] | Inr items \<Rightarrow> items)
           in (PList (map (\<lambda>r. PDict (fst r)) rs),
               batch_errors index_errors (map fst fields_dict) (map snd rs)))
        else
          (case unmarshal_item des fields_dict data partial of
             (out, errs) \<Rightarrow> (PDict out, errs)));
         names = [n. (n, fv) \<leftarrow> fields_dict, (KName n) \<in> fst ` set errors];
         um' = \<lparr>u_errors = errors, u_error_field_names = names,
                u_error_fields = [fv. (n, fv) \<leftarrow> fields_dict, (KName n) \<in> fst ` set errors]\<rparr>
     in if errors \<noteq> []
        then (Inl \<lparr>e_messages = errors, e_field_names = names,
                   e_fields = u_error_fields um', e_data = result\<rparr>, um')
        else (Inr result, um'))"

text \<open>
  Modelled from the spec: \<^verbatim>\<open>run_validator\<close> of the unmarshaller, which is in
  \<^verbatim>\<open>marshalling.py\<close>, not among the sources. A schema-level validator enters as what it
  raises for the output (and the original input, when it asks for it): the messages and the
  field names of its \<^verbatim>\<open>ValidationError\<close>, nothing when it passes. "A field- or
  schema-level validator reported one or more messages; merged by key", by "key union, list
  concatenation within a key"; messages without a field name go under \<^verbatim>\<open>_schema\<close>, and
  below a key that holds the dictionary of a nested schema they join its \<^verbatim>\<open>_schema\<close>
  list, so that they "never overwrite each other".
\<close>

type_synonym check = "pyval \<Rightarrow> pyval option \<Rightarrow> (string list \<times> string list) option"

definition SCHEMA :: string where
  "SCHEMA = ''_schema''"

definition messages_at :: "errors \<Rightarrow> ekey \<Rightarrow> string list" where
  "messages_at errs key = (case map_of errs key of Some (Msgs old) \<Rightarrow> old | _ \<Rightarrow> [])"

definition setdefault_extend :: "ekey \<Rightarrow> string list \<Rightarrow> errors \<Rightarrow> errors" where
  "setdefault_extend key msgs errs = AList.update key (Msgs (messages_at errs key @ msgs)) errs"

definition extend_messages :: "string list \<Rightarrow> string \<Rightarrow> errors \<Rightarrow> errors" where
  "extend_messages msgs field_name errs =
    (case map_of errs (KName field_name) of
       Some (Nested d) \<Rightarrow>
         AList.update (KName field_name) (Nested (setdefault_extend (KName SCHEMA) msgs d)) errs
     | _ \<Rightarrow> setdefault_extend (KName field_name) msgs errs)"

text \<open>
  Modelled from the spec: where the messages of one failure go. For an item of a batch the
  errors are keyed "from index then field name": they are merged into the dictionary kept
  under the item's index.
\<close>

definition store_messages :: "string list \<Rightarrow> string list \<Rightarrow> nat option \<Rightarrow> errors \<Rightarrow> errors" where
  "store_messages msgs field_names index errs =
    (case index of
       None \<Rightarrow> fold (extend_messages msgs) field_names errs
     | Some i \<Rightarrow>
        AList.update (KIndex i)
          (Nested (fold (extend_messages msgs) field_names
                     (case map_of errs (KIndex i) of Some (Nested d) \<Rightarrow> d | _ \<Rightarrow> [])))
          errs)"

text \<open>
  Modelled from the spec: the call as a whole. "A failure raises a structured error that is
  merged into the aggregate": the messages are stored in the error dictionary of the
  unmarshaller, which also keeps the field names and the fields of the failure, and the
  error raised carries that dictionary.
\<close>

definition run_validator ::
  "check \<Rightarrow> bool \<Rightarrow> pyval \<Rightarrow> pyval \<Rightarrow> (string \<times> fieldval) list \<Rightarrow> bool \<Rightarrow> nat option
     \<Rightarrow> unmarshaller \<Rightarrow> verror option \<times> unmarshaller" where
  "run_validator validator_func pass_original output original_data fields_dict many index um =
    (case validator_func output (if pass_original then Some original_data else None) of
       None \<Rightarrow> (None, um)
     | Some (msgs, names) \<Rightarrow>
        (let field_names = (if names \<noteq> [] then names else [SCHEMA]);
             field_objs = [fv. n \<leftarrow> names, fv \<leftarrow> (case map_of fields_dict n of
                                                   Some fv \<Rightarrow> [fv] | None \<Rightarrow> [])];
             um' = \<lparr>u_errors = store_messages msgs field_names index (u_errors um),
                    u_error_field_names = field_names, u_error_fields = field_objs\<rparr>
         in (Some \<lparr>e_messages = u_errors um', e_field_names = field_names,
                    e_fields = field_objs, e_data = output\<rparr>, um')))"

text \<open>
  A method registered under \<^verbatim>\<open>(VALIDATES_SCHEMA, pass_many)\<close> whose runs are those of
  \<^verbatim>\<open>run_validator\<close>.
\<close>

definition reporting :: "string \<Rightarrow> bool \<Rightarrow> check \<Rightarrow> schema_validator" where
  "reporting name pass_original validator_func =
     \<lparr>sv_name = name, sv_pass_original = pass_original,
      sv_run = run_validator validator_func pass_original\<rparr>"

section \<open>Notions of the specification\<close>





section \<open>Reading a trace\<close>

text \<open>The hook invocations of one phase in a trace, each as (batch flag, method name).\<close>

fun hook_calls :: "tag \<Rightarrow> event list \<Rightarrow> (bool \<times> string) list" where
  "hook_calls t [] = []"
| "hook_calls t (Processor t' pass_many name args # es) =
     (if t' = t then (pass_many, name) # hook_calls t es else hook_calls t es)"
| "hook_calls t (e # es) = hook_calls t es"

text \<open>What the caller gets: the exception, or the pair of data and errors.\<close>

definition returned :: "event list \<times> (exn + (pyval \<times> errors) \<times> schema) \<Rightarrow> exn + pyval \<times> errors" where
  "returned r = map_sum id fst (snd r)"

section \<open>Example schemas\<close>

text \<open>
  \<^verbatim>\<open>class UserSchema(Schema): name = fields.String(required=True);
  age = fields.Integer(required=True)\<close>, and variants of its \<^verbatim>\<open>class Meta\<close>.
\<close>

definition name_field :: field where
  "name_field = (new_field fields_String 1)\<lparr>f_required := True\<rparr>"

definition age_field :: field where
  "age_field = (new_field fields_Integer 2)\<lparr>f_required := True\<rparr>"

text \<open>
  A runtime for the examples: classes provide \<^verbatim>\<open>__class__\<close> and \<^verbatim>\<open>__doc__\<close> to every
  value and \<^verbatim>\<open>upper\<close> to a string; ten fields were made before the call.
\<close>

definition example_runtime :: runtime where
  "example_runtime = \<lparr>
     rt_getattr = (\<lambda>v key. if key = ''__class__'' \<or> key = ''__doc__'' then Some other_type
                            else if key = ''upper'' \<and> type_of v = text_type then Some other_type
                            else None),
     rt_str = (\<lambda>v. ''<object>''),
     rt_creation_index = 10\<rparr>"

definition user_attrs :: "(string \<times> attr) list" where
  "user_attrs = [(''name'', AField (Inst name_field)), (''age'', AField (Inst age_field)),
     (''make_user'', AOther)]"

definition conflict_Meta :: meta where
  "conflict_Meta = empty_Meta\<lparr>m_fields := Some (OTuple [''name'']),
     m_additional := Some (OList [''email''])\<rparr>"

definition conflict_attrs :: "(string \<times> attr) list" where
  "conflict_attrs = user_attrs @ [(''Meta'', AMeta conflict_Meta)]"

definition strict_attrs :: "(string \<times> attr) list" where
  "strict_attrs = user_attrs @ [(''Meta'', AMeta (empty_Meta\<lparr>m_strict := Some True\<rparr>))]"

definition no_hooks :: registry where
  "no_hooks = \<lparr>r_processors = (\<lambda>t pm. []), r_field_validators = [],
     r_schema_validators = (\<lambda>pm. []), r_error_handler = False\<rparr>"

definition default_opts :: opts where
  "default_opts = \<lparr>o_fields = [], o_additional = [], o_exclude = [], o_strict = False,
     o_dateformat = None, o_ordered = False, o_index_errors = True, o_include = [],
     o_load_only = [], o_dump_only = []\<rparr>"

definition UserSchema :: klass where
  "UserSchema = \<lparr>k_dict = [(''make_user'', AOther)], k_Meta = empty_Meta,
     k_opts = default_opts, k_ordered = False,
     k_declared_fields = [(''name'', Inst name_field), (''age'', Inst age_field)]\<rparr>"

text \<open>
  \<^verbatim>\<open>class AdminSchema(UserSchema): age = fields.Float(); role = fields.String()\<close>.
\<close>

definition admin_age_field :: field where
  "admin_age_field = new_field fields_Float 3"

definition role_field :: field where
  "role_field = new_field fields_String 4"

definition admin_attrs :: "(string \<times> attr) list" where
  "admin_attrs = [(''age'', AField (Inst admin_age_field)), (''role'', AField (Inst role_field))]"

definition AdminSchema :: klass where
  "AdminSchema = \<lparr>k_dict = [], k_Meta = empty_Meta, k_opts = default_opts, k_ordered = False,
     k_declared_fields = [(''name'', Inst name_field), (''age'', Inst admin_age_field),
                          (''role'', Inst role_field)]\<rparr>"

text \<open>\<^verbatim>\<open>class ManagerSchema(AdminSchema): team = fields.String()\<close>.\<close>

definition team_field :: field where
  "team_field = new_field fields_String 5"

definition manager_attrs :: "(string \<times> attr) list" where
  "manager_attrs = [(''team'', AField (Inst team_field))]"

definition ManagerSchema :: klass where
  "ManagerSchema = \<lparr>k_dict = [], k_Meta = empty_Meta, k_opts = default_opts,
     k_ordered = False,
     k_declared_fields = [(''name'', Inst name_field), (''age'', Inst admin_age_field),
                          (''role'', Inst role_field), (''team'', Inst team_field)]\<rparr>"

text \<open>
  Instances written out: a schema without fields and options; \<^verbatim>\<open>UserSchema(only=('name',))\<close>;
  and a schema whose \<^verbatim>\<open>Meta.fields\<close> names the undeclared \<^verbatim>\<open>nickname\<close> and
  \<^verbatim>\<open>joined\<close> beside a declared \<^verbatim>\<open>name\<close>.
\<close>

definition blank_schema :: schema where
  "blank_schema = \<lparr>s_declared_fields = [], s_opts = default_opts, s_registry = no_hooks,
     s_many = False, s_only = [], s_exclude = [], s_prefix = [], s_strict = False,
     s_ordered = False, s_load_only = [], s_dump_only = [], s_partial = PBool False,
     s_fields = [], s_marshal_errors = [],
     s_unmarshal = \<lparr>u_errors = [], u_error_field_names = [], u_error_fields = []\<rparr>,
     s_extra = None, s_context = []\<rparr>"

definition user_only_name :: schema where
  "user_only_name = blank_schema\<lparr>
     s_declared_fields := [(''name'', Inst name_field), (''age'', Inst age_field)],
     s_only := [''name'']\<rparr>"

definition profile_schema :: schema where
  "profile_schema = blank_schema\<lparr>
     s_declared_fields := [(''name'', Inst name_field)],
     s_opts := default_opts\<lparr>o_fields := [''name'', ''nickname'', ''joined'']\<rparr>\<rparr>"

definition profile_obj :: pyval where
  "profile_obj = PObj [(''name'', PText ''Ann''), (''nickname'', PText ''an''),
     (''joined'', PScalar Datetime)]"

text \<open>
  A schema with two post-dump hooks: \<^verbatim>\<open>stamp\<close>, per item, returns \<^verbatim>\<open>None\<close>;
  \<^verbatim>\<open>envelope\<close>, \<^verbatim>\<open>pass_many=True\<close>, wraps the data. The marshalling objects of the
  examples convert nothing and never fail.
\<close>

definition stamp :: processor where
  "stamp = \<lparr>p_name = ''stamp'', p_pass_original = False, p_call = (\<lambda>args. PNone)\<rparr>"

definition envelope :: processor where
  "envelope = \<lparr>p_name = ''envelope'', p_pass_original = False,
     p_call = (\<lambda>args. case args of [] \<Rightarrow> PNone | d # rest \<Rightarrow> PDict [(''data'', d)])\<rparr>"

definition hooked_schema :: schema where
  "hooked_schema = blank_schema\<lparr>s_registry := no_hooks\<lparr>r_processors :=
     (\<lambda>t pass_many. if t = POST_DUMP then (if pass_many then [envelope] else [stamp])
                      else [])\<rparr>\<rparr>"

definition plain_marshalling :: marshalling where
  "plain_marshalling = \<lparr>
     Marshaller_call = (\<lambda>obj fields_dict many index_errors errs. (Inr obj, [])),
     Unmarshaller_call = (\<lambda>data fields_dict many partial index_errors um.
        (Inr data, \<lparr>u_errors = [], u_error_field_names = [], u_error_fields = []\<rparr>))\<rparr>"

text \<open>
  Schema validators that refuse everything, raising \<^verbatim>\<open>ValidationError(msgs, names)\<close>:
  one batch and one per-item validator, and two per-item validators, all without field
  names, so that they report under \<^verbatim>\<open>_schema\<close>.
\<close>

definition refuse :: "string list \<Rightarrow> string list \<Rightarrow> check" where
  "refuse msgs names = (\<lambda>output original_data. Some (msgs, names))"

definition batch_and_item_validators :: schema where
  "batch_and_item_validators = blank_schema\<lparr>s_registry := no_hooks\<lparr>r_schema_validators :=
     (\<lambda>pass_many. if pass_many
        then [reporting ''check_batch'' False (refuse [''batch says no''] [])]
        else [reporting ''check_item'' False (refuse [''item says no''] [])])\<rparr>\<rparr>"

definition two_item_validators :: schema where
  "two_item_validators = blank_schema\<lparr>s_registry := no_hooks\<lparr>r_schema_validators :=
     (\<lambda>pass_many. if pass_many then []
        else [reporting ''check_a'' False (refuse [''first''] []),
              reporting ''check_b'' False (refuse [''second''] [])])\<rparr>\<rparr>"

text \<open>
  \<^verbatim>\<open>UserSchema()\<close>, its fields bound by \<^verbatim>\<open>__init__\<close>, with the unmarshaller of the
  specification and field contracts that accept every value.
\<close>

definition bound :: "string \<Rightarrow> field \<Rightarrow> field" where
  "bound field_name f = f\<lparr>f_name := Some field_name, f_parent := True\<rparr>"

definition user_schema :: schema where
  "user_schema = blank_schema\<lparr>
     s_declared_fields := [(''name'', Inst (bound ''name'' name_field)),
                           (''age'', Inst (bound ''age'' age_field))],
     s_fields := [(''name'', Inst (bound ''name'' name_field)),
                  (''age'', Inst (bound ''age'' age_field))]\<rparr>"

text \<open>
  \<^verbatim>\<open>UserSchema(only=('name',))\<close> with \<^verbatim>\<open>name\<close> resolved and bound, and with all the
  declared fields bound.
\<close>

definition user_only_name_bound :: schema where
  "user_only_name_bound = user_only_name\<lparr>
     s_declared_fields := [(''name'', Inst (bound ''name'' name_field)),
                           (''age'', Inst age_field)],
     s_fields := [(''name'', Inst (bound ''name'' name_field))]\<rparr>"

definition user_only_name_all_bound :: schema where
  "user_only_name_all_bound = user_only_name\<lparr>
     s_declared_fields := [(''name'', Inst (bound ''name'' name_field)),
                           (''age'', Inst (bound ''age'' age_field))],
     s_fields := [(''name'', Inst (bound ''name'' name_field)),
                  (''age'', Inst (bound ''age'' age_field))]\<rparr>"

text \<open>The same with a post-load hook \<^verbatim>\<open>make_user\<close>.\<close>

definition make_user :: processor where
  "make_user = \<lparr>p_name = ''make_user'', p_pass_original = False,
     p_call = (\<lambda>args. case args of [] \<Rightarrow> PNone | d # rest \<Rightarrow> PObj [(''data'', d)])\<rparr>"

definition user_schema_post_load :: schema where
  "user_schema_post_load = user_schema\<lparr>s_registry := no_hooks\<lparr>r_processors :=
     (\<lambda>t pass_many. if t = POST_LOAD \<and> \<not> pass_many then [make_user] else [])\<rparr>\<rparr>"

text \<open>
  The same with two schema-level validators that blame \<^verbatim>\<open>age\<close>: a batch one, and one that
  asks for the original input.
\<close>

definition checked_user_schema :: schema where
  "checked_user_schema = user_schema\<lparr>s_registry := no_hooks\<lparr>r_schema_validators :=
     (\<lambda>pass_many. if pass_many
        then [reporting ''check_all'' False (refuse [''bad batch''] [''age''])]
        else [reporting ''check_age'' True (refuse [''too young''] [''age''])])\<rparr>\<rparr>"

definition accept :: "field \<Rightarrow> pyval \<Rightarrow> string + pyval" where
  "accept f v = Inr v"

definition spec_marshalling :: "(field \<Rightarrow> pyval \<Rightarrow> string + pyval) \<Rightarrow> marshalling" where
  "spec_marshalling des = \<lparr>
     Marshaller_call = (\<lambda>obj fields_dict many index_errors errs. (Inr obj, [])),
     Unmarshaller_call = spec_Unmarshaller des\<rparr>"

section \<open>Properties\<close>

lemma SchemaOpts_init_conflict:
  assumes "m_fields m = Some f" and "m_additional m = Some a"
    and "opt_truthy f" and "opt_truthy a"
  shows "\<exists>msg. SchemaOpts_init m = Inl (ValueError msg)"
  using assms by (simp add: SchemaOpts_init_def getattr_default_def Let_def)

lemma own_Meta_pop_fields:
  "map_of attrs ''Meta'' = Some (AMeta m) \<Longrightarrow> own_Meta (pop_fields attrs) = Some m"
  unfolding own_Meta_def pop_fields_def
  by (induction attrs) (auto split: option.splits attr.splits if_splits)

lemmas class_creation_defs =
  SchemaMeta_new_def own_Meta_def BaseSchema_def object_class_def pop_fields_def
  get_fields_def get_fields_by_mro_def fields_source_def SchemaOpts_init_def
  getattr_default_def empty_Meta_def get_declared_fields_def dict_of_def dict_update_def

lemmas example_defs =
  user_attrs_def name_field_def age_field_def new_field_def conflict_attrs_def
  conflict_Meta_def strict_attrs_def no_hooks_def default_args_def default_opts_def
  UserSchema_def admin_age_field_def role_field_def admin_attrs_def blank_schema_def
  user_only_name_def profile_schema_def profile_obj_def stamp_def envelope_def
  hooked_schema_def plain_marshalling_def example_runtime_def refuse_def reporting_def
  batch_and_item_validators_def two_item_validators_def bound_def user_schema_def accept_def
  spec_marshalling_def AdminSchema_def team_field_def manager_attrs_def make_user_def
  ManagerSchema_def checked_user_schema_def user_schema_post_load_def user_only_name_bound_def user_only_name_all_bound_def

lemmas resolution_defs =
  Schema_init_def update_fields_def filter_fields_def field_names_of_def set_class_def
  set_and_def set_or_def set_minus_def resolve_field_def

lemma UserSchema_created:
  "SchemaMeta_new example_runtime [BaseSchema] [BaseSchema, object_class] user_attrs = Inr UserSchema"
  by (simp add: class_creation_defs example_defs Let_def)

text \<open>
  C5. A class body whose own \<^verbatim>\<open>Meta\<close> sets both \<^verbatim>\<open>fields\<close> and \<^verbatim>\<open>additional\<close> to
  non-empty values never becomes a class: \<^verbatim>\<open>SchemaMeta.__new__\<close> raises
  \<^verbatim>\<open>ValueError\<close>, whatever the bases and the other attributes are. No class, hence no
  instance, hence no dump or load.
\<close>

theorem fields_additional_conflict:
  assumes "map_of attrs ''Meta'' = Some (AMeta m)"
    and "m_fields m = Some f" and "m_additional m = Some a"
    and "opt_truthy f" and "opt_truthy a"
  shows "\<exists>msg. SchemaMeta_new rt bases ancestors attrs = Inl (ValueError msg)"
proof -
  have meta: "getattr_Meta (pop_fields attrs # map b_dict ancestors) = Inr m"
    using own_Meta_pop_fields [OF assms(1)] by simp
  obtain msg where "SchemaOpts_init m = Inl (ValueError msg)"
    using SchemaOpts_init_conflict [OF assms(2-5)] by blast
  with meta show ?thesis
    by (simp add: SchemaMeta_new_def Let_def)
qed

theorem fields_additional_conflict_witness:
  "map_of conflict_attrs ''Meta'' = Some (AMeta conflict_Meta)
   \<and> opt_truthy (OTuple [''name'']) \<and> opt_truthy (OList [''email''])
   \<and> (\<exists>msg. SchemaMeta_new example_runtime [BaseSchema] [BaseSchema, object_class] conflict_attrs
               = Inl (ValueError msg))"
proof -
  have m: "map_of conflict_attrs ''Meta'' = Some (AMeta conflict_Meta)"
    by (simp add: conflict_attrs_def user_attrs_def)
  have f: "m_fields conflict_Meta = Some (OTuple [''name''])"
    and a: "m_additional conflict_Meta = Some (OList [''email''])"
    by (simp_all add: conflict_Meta_def)
  show ?thesis
    using m fields_additional_conflict [OF m f a, of example_runtime "[BaseSchema]" "[BaseSchema, object_class]"]
    by simp
qed

text \<open>
  C9. The strict mode of an instance is the disjunction of the constructor argument and the
  class option; a class that is strict gives strict instances whatever the argument.
\<close>

theorem strict_is_disjunction:
  assumes "Schema_init rt cls reg args = Inr self"
  shows "s_strict self = (a_strict args \<or> o_strict (k_opts cls))
       \<and> (o_strict (k_opts cls) \<longrightarrow> s_strict self)"
  using assms
  by (auto simp: Schema_init_def update_fields_def split: sum.splits)

theorem strict_is_disjunction_witness:
  "\<exists>cls self. SchemaMeta_new example_runtime [BaseSchema] [BaseSchema, object_class] strict_attrs = Inr cls
     \<and> Schema_init example_runtime cls no_hooks default_args = Inr self
     \<and> \<not> a_strict default_args \<and> o_strict (k_opts cls) \<and> s_strict self"
proof -
  obtain cls
    where cls: "SchemaMeta_new example_runtime [BaseSchema] [BaseSchema, object_class] strict_attrs = Inr cls"
    and opts: "o_strict (k_opts cls)" "o_fields (k_opts cls) = []"
      "o_additional (k_opts cls) = []" "o_exclude (k_opts cls) = []"
    and decl: "k_declared_fields cls = [(''name'', Inst name_field), (''age'', Inst age_field)]"
    by (simp add: class_creation_defs example_defs Let_def)
  obtain self where self: "Schema_init example_runtime cls no_hooks default_args = Inr self"
    by (simp add: resolution_defs opts decl default_args_def Let_def)
  from strict_is_disjunction [OF self] opts(1) have "s_strict self" by simp
  with cls self opts(1) show ?thesis by (auto simp: default_args_def)
qed






















text \<open>
  The branch commented \<^verbatim>\<open># Object is None\<close> is taken by every falsy object: an empty
  dictionary, which has no key at all, gets base fields for the undeclared names where a
  dictionary with one other key raises the \<^verbatim>\<open>KeyError\<close>.
\<close>

lemma empty_mapping_takes_none_branch:
  "filter_fields example_runtime profile_schema (field_names_of profile_schema) (PDict []) False
     = Inr [(''name'', Inst name_field), (''nickname'', Inst (new_field fields_Field 10)),
            (''joined'', Inst (new_field fields_Field 11))]
   \<and> filter_fields example_runtime profile_schema (field_names_of profile_schema)
        (PDict [(''name'', PText ''Ann'')]) False
     = Inl (KeyError (not_a_valid_field example_runtime ''nickname''
              (PDict [(''name'', PText ''Ann'')])))"
  by (simp add: resolution_defs example_defs)



lemma hook_calls_append: "hook_calls t (a @ b) = hook_calls t a @ hook_calls t b"
  by (induction t a rule: hook_calls.induct) simp_all

lemma fst_then_run:
  "fst (then_run m f) = fst m @ (case snd m of Inl e \<Rightarrow> [] | Inr x \<Rightarrow> fst (f x))"
  by (cases m) (auto simp: then_run_def split: sum.splits prod.splits)

lemma snd_then_run:
  "snd (then_run m f) = (case snd m of Inl e \<Rightarrow> Inl e | Inr x \<Rightarrow> snd (f x))"
  by (cases m) (auto simp: then_run_def split: sum.splits prod.splits)

lemma hook_calls_replicate:
  "hook_calls t (map (\<lambda>item. Processor t' pm name (args item)) items)
     = (if t' = t then replicate (length items) (pm, name) else [])"
  by (induction items) auto

lemma run_processor_calls:
  "\<exists>k. hook_calls t (fst (run_processor t' pm p d many orig))
         = (if t' = t then replicate k (pm, p_name p) else [])"
proof (cases "t' = t")
  case False
  then show ?thesis
    by (auto simp: run_processor_def Let_def hook_calls_replicate split: sum.splits)
next
  case True
  show ?thesis
  proof (cases "\<not> pm \<and> many")
    case False
    then have "hook_calls t (fst (run_processor t' pm p d many orig)) = replicate 1 (pm, p_name p)"
      using True by (auto simp: run_processor_def Let_def)
    with True show ?thesis by metis
  next
    case nb: True
    show ?thesis
    proof (cases "iter_items d")
      case (Inl e)
      with nb True have "hook_calls t (fst (run_processor t' pm p d many orig))
          = replicate 0 (pm, p_name p)"
        by (simp add: run_processor_def)
      with True show ?thesis by metis
    next
      case (Inr items)
      with nb True have "hook_calls t (fst (run_processor t' pm p d many orig))
          = replicate (length items) (pm, p_name p)"
        by (simp add: run_processor_def Let_def hook_calls_replicate)
      with True show ?thesis by metis
    qed
  qed
qed

lemma run_processor_other:
  "t' \<noteq> t \<Longrightarrow> hook_calls t (fst (run_processor t' pm p d many orig)) = []"
  using run_processor_calls [of t t' pm p d many orig] by simp

lemma processors_loop_other:
  "t' \<noteq> t \<Longrightarrow> hook_calls t (fst (processors_loop t' pm ps d many orig)) = []"
  by (induction ps arbitrary: d)
     (auto simp: fst_then_run hook_calls_append run_processor_other split: sum.splits)

lemma processors_loop_calls:
  "\<exists>k. map fst (hook_calls t (fst (processors_loop t pm ps d many orig))) = replicate k pm"
proof (induction ps arbitrary: d)
  case Nil
  have "map fst (hook_calls t (fst (processors_loop t pm [] d many orig))) = replicate 0 pm"
    by simp
  then show ?case by blast
next
  case (Cons p ps)
  obtain k where k: "hook_calls t (fst (run_processor t pm p d many orig))
      = replicate k (pm, p_name p)"
    using run_processor_calls [of t t pm p d many orig] by auto
  show ?case
  proof (cases "snd (run_processor t pm p d many orig)")
    case (Inl e)
    then have "map fst (hook_calls t (fst (processors_loop t pm (p # ps) d many orig)))
        = replicate k pm"
      by (simp add: fst_then_run k)
    then show ?thesis by blast
  next
    case (Inr d')
    from Cons.IH [of d'] obtain j
      where "map fst (hook_calls t (fst (processors_loop t pm ps d' many orig))) = replicate j pm"
      by blast
    with Inr have "map fst (hook_calls t (fst (processors_loop t pm (p # ps) d many orig)))
        = replicate (k + j) pm"
      by (simp add: fst_then_run hook_calls_append k replicate_add)
    then show ?thesis by blast
  qed
qed

lemma processors_loop_single:
  "\<not> (many \<and> \<not> pm) \<Longrightarrow>
     hook_calls t (fst (processors_loop t pm ps d many orig)) = map (\<lambda>p. (pm, p_name p)) ps
     \<and> (\<exists>d'. snd (processors_loop t pm ps d many orig) = Inr d')"
proof (induction ps arbitrary: d)
  case Nil
  then show ?case by simp
next
  case (Cons p ps)
  from Cons.prems
  have "\<exists>args d'. run_processor t pm p d many orig
          = ([Processor t pm (p_name p) args], Inr d')"
    by (auto simp: run_processor_def Let_def)
  then obtain args d' where r': "run_processor t pm p d many orig
      = ([Processor t pm (p_name p) args], Inr d')"
    by blast
  from Cons.IH [OF Cons.prems, of d'] show ?case
    by (simp add: fst_then_run snd_then_run r')
qed

lemma invoke_dump_processors_other:
  "t' \<noteq> t \<Longrightarrow> hook_calls t (fst (invoke_dump_processors self t' d many orig)) = []"
  by (auto simp: invoke_dump_processors_def invoke_processors_def fst_then_run
        hook_calls_append processors_loop_other split: sum.splits)

lemma invoke_dump_processors_order:
  "\<exists>n m. map fst (hook_calls t (fst (invoke_dump_processors self t d many orig)))
           = replicate n False @ replicate m True"
proof -
  let ?nb = "invoke_processors self t False d many orig"
  obtain n where n: "map fst (hook_calls t (fst ?nb)) = replicate n False"
    unfolding invoke_processors_def using processors_loop_calls by blast
  show ?thesis
  proof (cases "snd ?nb")
    case (Inl e)
    then have "map fst (hook_calls t (fst (invoke_dump_processors self t d many orig)))
        = replicate n False @ replicate 0 True"
      by (simp add: invoke_dump_processors_def fst_then_run n)
    then show ?thesis by blast
  next
    case (Inr d')
    obtain m where "map fst (hook_calls t (fst (invoke_processors self t True d' many orig)))
        = replicate m True"
      unfolding invoke_processors_def using processors_loop_calls by blast
    with Inr have "map fst (hook_calls t (fst (invoke_dump_processors self t d many orig)))
        = replicate n False @ replicate m True"
      by (simp add: invoke_dump_processors_def fst_then_run hook_calls_append n)
    then show ?thesis by blast
  qed
qed

lemma invoke_dump_processors_single:
  "\<not> many \<Longrightarrow>
     hook_calls t (fst (invoke_dump_processors self t d many orig))
       = map (\<lambda>p. (False, p_name p)) (r_processors (s_registry self) t False)
         @ map (\<lambda>p. (True, p_name p)) (r_processors (s_registry self) t True)"
proof -
  assume nm: "\<not> many"
  let ?nb = "r_processors (s_registry self) t False"
  from nm processors_loop_single [of many False t ?nb d orig]
  obtain d' where c1: "hook_calls t (fst (processors_loop t False ?nb d many orig))
       = map (\<lambda>p. (False, p_name p)) ?nb"
    and s1: "snd (processors_loop t False ?nb d many orig) = Inr d'"
    by auto
  from nm processors_loop_single [of many True t "r_processors (s_registry self) t True" d' orig]
  have c2: "hook_calls t (fst (processors_loop t True (r_processors (s_registry self) t True)
          d' many orig))
       = map (\<lambda>p. (True, p_name p)) (r_processors (s_registry self) t True)"
    by simp
  show ?thesis
    by (simp add: invoke_dump_processors_def invoke_processors_def fst_then_run
          hook_calls_append c1 s1 c2)
qed

lemma postprocess_calls: "hook_calls t (fst (postprocess self d many obj)) = []"
  by (auto simp: postprocess_def fst_then_run hook_calls_append
        split: option.splits sum.splits)

lemma update_fields_registry:
  "update_fields rt self obj many = Inr self' \<Longrightarrow> s_registry self' = s_registry self"
  by (auto simp: update_fields_def split: sum.splits)

lemma dump_post_calls:
  "(hook_calls POST_DUMP (fst (dump rt mar self obj many_arg upd)) = []
          \<and> (\<exists>e. snd (dump rt mar self obj many_arg upd) = Inl e))
       \<or> (\<exists>self2 result. s_registry self2 = s_registry self
            \<and> hook_calls POST_DUMP (fst (dump rt mar self obj many_arg upd))
              = hook_calls POST_DUMP
                  (fst (invoke_dump_processors self2 POST_DUMP result
                         (case many_arg of None \<Rightarrow> s_many self | Some m \<Rightarrow> m) obj)))"
proof -
  let ?many = "case many_arg of None \<Rightarrow> s_many self | Some m \<Rightarrow> m"
  let ?pre = "invoke_dump_processors self PRE_DUMP obj ?many obj"
  have pre: "hook_calls POST_DUMP (fst ?pre) = []"
    by (simp add: invoke_dump_processors_other)
  show ?thesis
  proof (cases "snd ?pre")
    case (Inl e)
    then show ?thesis
      by (simp add: dump_def Let_def fst_then_run snd_then_run pre)
  next
    case po: (Inr processed_obj)
    show ?thesis
    proof (cases "if upd then update_fields rt self processed_obj ?many else Inr self")
      case (Inl e)
      then show ?thesis
        by (simp add: dump_def Let_def fst_then_run snd_then_run pre po)
    next
      case s1: (Inr self1)
      have reg1: "s_registry self1 = s_registry self"
        using s1 update_fields_registry by (auto split: if_splits)
      obtain r me where mc: "Marshaller_call mar processed_obj (s_fields self1) ?many
             (o_index_errors (s_opts self1)) (s_marshal_errors self1) = (r, me)"
        by (cases "Marshaller_call mar processed_obj (s_fields self1) ?many
             (o_index_errors (s_opts self1)) (s_marshal_errors self1)")
      let ?self2 = "self1\<lparr>s_marshal_errors := me\<rparr>"
      let ?res = "case r of
                    Inl error \<Rightarrow>
                      if s_strict ?self2 then Inl (ValidationError error)
                      else Inr (e_data error, me)
                  | Inr preresult \<Rightarrow> Inr (preresult, [])"
      show ?thesis
      proof (cases ?res)
        case (Inl e)
        then show ?thesis
          by (simp add: dump_def Let_def fst_then_run snd_then_run pre po
                s1 mc)
      next
        case (Inr pe)
        obtain preresult errors where pe: "pe = (preresult, errors)" by (cases pe)
        show ?thesis
        proof (cases "snd (postprocess ?self2 preresult ?many obj)")
          case (Inl e)
          with Inr pe show ?thesis
            by (simp add: dump_def Let_def fst_then_run snd_then_run pre
                  po s1 mc postprocess_calls hook_calls_append)
        next
          case res: (Inr result)
          have "hook_calls POST_DUMP (fst (dump rt mar self obj many_arg upd))
              = hook_calls POST_DUMP
                  (fst (invoke_dump_processors ?self2 POST_DUMP result ?many obj))"
            using Inr pe res
            by (simp add: dump_def Let_def fst_then_run snd_then_run pre
                  po s1 mc postprocess_calls hook_calls_append split: sum.splits)
          moreover have "s_registry ?self2 = s_registry self" using reg1 by simp
          ultimately show ?thesis by blast
        qed
      qed
    qed
  qed
qed

text \<open>
  C2, as the code has it. In every dump the non-batch post-dump hooks are invoked before any batch
  (\<^verbatim>\<open>pass_many\<close>) post-dump hook: the post-dump invocations of the trace are a run of
  non-batch calls followed by a run of batch calls. For a single object (\<open>many\<close> false) and
  a dump that returns, they are exactly the registered non-batch hooks in order, then the
  registered batch hooks in order.
\<close>

theorem post_dump_order:
  "(\<exists>n m. map fst (hook_calls POST_DUMP (fst (dump rt mar self obj many_arg upd)))
            = replicate n False @ replicate m True)
   \<and> ((\<exists>res. snd (dump rt mar self obj many_arg upd) = Inr res)
        \<and> \<not> (case many_arg of None \<Rightarrow> s_many self | Some m \<Rightarrow> m) \<longrightarrow>
       hook_calls POST_DUMP (fst (dump rt mar self obj many_arg upd))
         = map (\<lambda>p. (False, p_name p)) (r_processors (s_registry self) POST_DUMP False)
           @ map (\<lambda>p. (True, p_name p)) (r_processors (s_registry self) POST_DUMP True))"
proof -
  let ?many = "case many_arg of None \<Rightarrow> s_many self | Some m \<Rightarrow> m"
  let ?calls = "hook_calls POST_DUMP (fst (dump rt mar self obj many_arg upd))"
  from dump_post_calls [of rt mar self obj many_arg upd]
  consider (stopped) "?calls = []" "\<exists>e. snd (dump rt mar self obj many_arg upd) = Inl e"
    | (ran) self2 result where "s_registry self2 = s_registry self"
        "?calls = hook_calls POST_DUMP
                    (fst (invoke_dump_processors self2 POST_DUMP result ?many obj))"
    by blast
  then show ?thesis
  proof cases
    case stopped
    then have "map fst ?calls = replicate 0 False @ replicate 0 True" by simp
    then have "\<exists>n m. map fst ?calls = replicate n False @ replicate m True" by blast
    with stopped(2) show ?thesis by auto
  next
    case ran
    have "\<exists>n m. map fst ?calls = replicate n False @ replicate m True"
      unfolding ran(2) by (rule invoke_dump_processors_order)
    moreover have "?calls
         = map (\<lambda>p. (False, p_name p)) (r_processors (s_registry self) POST_DUMP False)
           @ map (\<lambda>p. (True, p_name p)) (r_processors (s_registry self) POST_DUMP True)"
      if "\<not> ?many"
      unfolding ran(2) using invoke_dump_processors_single [OF that] ran(1) by simp
    ultimately show ?thesis by blast
  qed
qed

theorem post_dump_order_witness:
  "(\<exists>res. snd (dump example_runtime plain_marshalling hooked_schema (PDict [(''name'', PText ''Ann'')])
              None True) = Inr res)
   \<and> \<not> s_many hooked_schema
   \<and> hook_calls POST_DUMP
        (fst (dump example_runtime plain_marshalling hooked_schema (PDict [(''name'', PText ''Ann'')])
                None True))
       = [(False, ''stamp''), (True, ''envelope'')]"
proof -
  let ?d = "dump example_runtime plain_marshalling hooked_schema (PDict [(''name'', PText ''Ann'')]) None True"
  have ret: "\<exists>res. snd ?d = Inr res"
    by (simp add: dump_def then_run_def invoke_dump_processors_def invoke_processors_def
          run_processor_def postprocess_def if_none_def resolution_defs example_defs Let_def)
  have single: "\<not> s_many hooked_schema"
    by (simp add: hooked_schema_def blank_schema_def)
  from post_dump_order [of example_runtime plain_marshalling hooked_schema "PDict [(''name'', PText ''Ann'')]"
      None True, THEN conjunct2] ret single
  have "hook_calls POST_DUMP (fst ?d)
      = map (\<lambda>p. (False, p_name p)) (r_processors (s_registry hooked_schema) POST_DUMP False)
        @ map (\<lambda>p. (True, p_name p)) (r_processors (s_registry hooked_schema) POST_DUMP True)"
    by simp
  then have "hook_calls POST_DUMP (fst ?d) = [(False, ''stamp''), (True, ''envelope'')]"
    by (simp add: hooked_schema_def blank_schema_def no_hooks_def stamp_def envelope_def)
  with ret single show ?thesis by blast
qed

theorem non_batch_post_dump_hook_runs_first:
  "r_processors (s_registry hooked_schema) POST_DUMP True = [envelope]
   \<and> r_processors (s_registry hooked_schema) POST_DUMP False = [stamp]
   \<and> fst (dump example_runtime plain_marshalling hooked_schema (PDict [(''name'', PText ''Ann'')]) None True)
       = [Processor POST_DUMP False ''stamp'' [PDict [(''name'', PText ''Ann'')]],
          Processor POST_DUMP True ''envelope''
            [PDict [(''name'', PText ''Ann'')], PBool False]]"
  by (simp add: dump_def then_run_def invoke_dump_processors_def invoke_processors_def
        run_processor_def postprocess_def if_none_def resolution_defs example_defs Let_def)




lemmas load_defs =
  load_def do_load_def load_errors_def finish_load_def unmarshal_step_def
  effective_partial_def validate_schema_def validate_schema_step_def invoke_validators_def
  invoke_field_validators_def invoke_load_processors_def invoke_processors_def absorb_def
  aggregate_error_def returned_def then_run_def dict_update_def



lemma unmarshal_item_reported:
  "KName field_name \<in> fst ` set (snd (unmarshal_item des fields_dict item partial)) \<longleftrightarrow>
     (\<exists>f. (field_name, Inst f) \<in> set fields_dict
        \<and> (case input_value item field_name of
              None \<Rightarrow> \<not> partial_for partial field_name \<and> f_required f
            | Some v \<Rightarrow> isl (des f v)))"
proof (induction fields_dict)
  case Nil
  then show ?case by simp
next
  case (Cons p rest)
  obtain n fv where p: "p = (n, fv)" by (cases p)
  obtain out errs where r: "unmarshal_item des rest item partial = (out, errs)"
    by (cases "unmarshal_item des rest item partial")
  from Cons.IH r have IH: "KName field_name \<in> fst ` set errs \<longleftrightarrow>
     (\<exists>f. (field_name, Inst f) \<in> set rest
        \<and> (case input_value item field_name of
              None \<Rightarrow> \<not> partial_for partial field_name \<and> f_required f
            | Some v \<Rightarrow> isl (des f v)))"
    by simp
  show ?case
  proof (cases fv)
    case (Cls k)
    with p r IH show ?thesis by simp
  next
    case (Inst f)
    show ?thesis
    proof (cases "input_value item n")
      case None
      with p r IH Inst show ?thesis by (auto split: option.splits)
    next
      case (Some v)
      with p r IH Inst show ?thesis
        by (cases "des f v") (auto split: option.splits)
    qed
  qed
qed

lemma unmarshal_step_spec_errors:
  "u_errors (snd (unmarshal_step (spec_marshalling des) self item False partial_arg))
     = snd (unmarshal_item des (s_fields self) item (effective_partial self partial_arg))"
  by (simp add: unmarshal_step_def spec_marshalling_def spec_Unmarshaller_def Let_def
        split: prod.splits)

lemma partial_for_effective:
  "partial_for (effective_partial self partial_arg) field_name
     = (case partial_arg of None \<Rightarrow> partial_for (s_partial self) field_name
        | Some p \<Rightarrow> truthy p)"
  by (cases partial_arg) (simp_all add: effective_partial_def)

text \<open>
  C3, as the code has it. A \<^verbatim>\<open>partial\<close> argument given to a load is coerced to a boolean for the
  whole load, a non-empty set of names counting as true: the call does what it does for
  that boolean. Only the instance's own \<^verbatim>\<open>partial\<close>, used when the argument is omitted,
  reaches the unmarshaller as it is. So, with the unmarshaller of the specification, a
  required field absent from a single input is flagged exactly when \<^verbatim>\<open>partial\<close> is not
  true for it, where an argument that is given is true for every field or for none.
\<close>

theorem partial_argument_is_coerced:
  assumes "map_of (s_fields self) field_name = Some (Inst f)"
    and "f_required f"
    and "input_value item field_name = None"
  shows "do_load mar self data many_arg (Some p) postprocess_arg
           = do_load mar self data many_arg (Some (PBool (truthy p))) postprocess_arg
       \<and> (KName field_name
             \<in> fst ` set (u_errors (snd (unmarshal_step (spec_marshalling des) self item False
                                            partial_arg)))
          \<longleftrightarrow> \<not> (case partial_arg of None \<Rightarrow> partial_for (s_partial self) field_name
                 | Some q \<Rightarrow> truthy q))"
proof -
  have coerced: "do_load mar self data many_arg (Some p) postprocess_arg
           = do_load mar self data many_arg (Some (PBool (truthy p))) postprocess_arg"
    by (simp add: do_load_def load_errors_def unmarshal_step_def effective_partial_def)
  from assms(1) have member: "(field_name, Inst f) \<in> set (s_fields self)"
    by (rule map_of_SomeD)
  have "KName field_name
          \<in> fst ` set (snd (unmarshal_item des (s_fields self) item
                               (effective_partial self partial_arg)))
        \<longleftrightarrow> \<not> partial_for (effective_partial self partial_arg) field_name"
    unfolding unmarshal_item_reported using assms(2,3) member by auto
  with coerced show ?thesis
    by (simp only: unmarshal_step_spec_errors partial_for_effective)
qed

theorem partial_argument_is_coerced_witness:
  "map_of (s_fields user_schema) ''name'' = Some (Inst (bound ''name'' name_field))
   \<and> f_required (bound ''name'' name_field)
   \<and> input_value (PDict [(''age'', PInt 3)]) ''name'' = None
   \<and> \<not> partial_for (PSet [PText ''age'']) ''name''
   \<and> KName ''name''
        \<notin> fst ` set (u_errors (snd (unmarshal_step (spec_marshalling accept) user_schema
                                       (PDict [(''age'', PInt 3)]) False
                                       (Some (PSet [PText ''age''])))))
   \<and> KName ''name''
        \<in> fst ` set (u_errors (snd (unmarshal_step (spec_marshalling accept) user_schema
                                       (PDict [(''age'', PInt 3)]) False None)))"
proof -
  have m: "map_of (s_fields user_schema) ''name'' = Some (Inst (bound ''name'' name_field))"
    by (simp add: user_schema_def blank_schema_def)
  have r: "f_required (bound ''name'' name_field)"
    by (simp add: bound_def name_field_def new_field_def)
  have a: "input_value (PDict [(''age'', PInt 3)]) ''name'' = None" by simp
  have p: "s_partial user_schema = PBool False"
    by (simp add: user_schema_def blank_schema_def)
  note t = partial_argument_is_coerced [OF m r a, of _ _ _ PNone _ accept, THEN conjunct2]
  from t [of "Some (PSet [PText ''age''])"]
  have given: "KName ''name''
        \<notin> fst ` set (u_errors (snd (unmarshal_step (spec_marshalling accept) user_schema
                                       (PDict [(''age'', PInt 3)]) False
                                       (Some (PSet [PText ''age''])))))"
    by simp
  from t [of None]
  have omitted: "KName ''name''
        \<in> fst ` set (u_errors (snd (unmarshal_step (spec_marshalling accept) user_schema
                                       (PDict [(''age'', PInt 3)]) False None)))"
    by (simp add: p)
  from m r a given omitted show ?thesis by simp
qed

theorem partial_set_skips_unnamed_field:
  "f_required (bound ''name'' name_field)
   \<and> map_of (s_fields user_schema) ''name'' = Some (Inst (bound ''name'' name_field))
   \<and> PText ''name'' \<notin> set [PText ''age'']
   \<and> returned (load (spec_marshalling accept) user_schema (PDict []) None
                 (Some (PSet [PText ''age''])))
       = Inr (PDict [], [])
   \<and> returned (load (spec_marshalling accept) user_schema (PDict []) None (Some (PBool True)))
       = Inr (PDict [], [])
   \<and> returned (load (spec_marshalling accept) user_schema (PDict []) None (Some (PBool False)))
       = Inr (PDict [], [(KName ''name'', Msgs [required_error]),
                         (KName ''age'', Msgs [required_error])])"
  by (simp add: load_defs example_defs spec_Unmarshaller_def Let_def)









lemma map_of_dict_update: "map_of (dict_update d ps) = map_of d ++ map_of (rev ps)"
proof (induction ps arbitrary: d)
  case Nil
  then show ?case by (simp add: dict_update_def)
next
  case (Cons p ps)
  obtain k v where p: "p = (k, v)" by (cases p)
  have step: "dict_update d (p # ps) = dict_update (AList.update k v d) ps"
    by (simp add: dict_update_def p)
  show ?case
    unfolding step Cons.IH
    by (rule ext) (simp add: p update_conv' map_add_def split: option.splits)
qed

lemma map_of_dict_of: "map_of (dict_of ps) = map_of (rev ps)"
  by (simp add: dict_of_def map_of_dict_update)

lemma keys_dict_of: "fst ` set (dict_of ps) = fst ` set ps"
proof -
  have "dom (map_of (dict_of ps)) = dom (map_of (rev ps))"
    by (simp add: map_of_dict_of)
  then show ?thesis by (simp add: dom_map_of_conv_image_fst)
qed

lemma map_of_dict_of_append:
  "map_of (dict_of (xs @ ys)) = map_of (dict_of xs) ++ map_of (dict_of ys)"
  by (simp add: map_of_dict_of)



























end
